theory Spec2Isabelle
  imports Complex_Main "HOL-Library.Sublist"
begin

section \<open>Python values, errors and the estimator base\<close>

text \<open>
  The dispatch layer of sklearnex inspects only a few properties of the values it is handed:
  whether a value is \<^verbatim>\<open>None\<close>, whether it is a scipy sparse matrix, and the shape of an
  array. \<open>array_like\<close> is a two-dimensional array or sparse matrix of shape
  \<open>(n_rows, n_cols)\<close>, as the docstrings of \<^verbatim>\<open>fit\<close> and \<^verbatim>\<open>predict\<close> describe their input.
\<close>

datatype dtype = float64 | float32 | other_dtype

datatype array_like = Array (is_sparse: bool) (n_rows: nat) (n_cols: nat) (dtype_of: dtype)

datatype pyobj =
    PyNone
  | PyStr string
  | PyOpaque string  \<comment> \<open>any other object (a callable, a backend estimator), tagged by its type name\<close>
  | PyArray array_like

datatype error =
    AssertionError
  | RuntimeError string
  | TypeError string
  | ValueError string
  | AttributeError string
  | KeyError string
  | OverflowError string
  | NotFittedError string

text \<open>\<^verbatim>\<open>scipy.sparse.issparse\<close>: true exactly for sparse matrices.\<close>

fun issparse :: "pyobj \<Rightarrow> bool" where
  "issparse (PyArray a) = is_sparse a"
| "issparse _ = False"

text \<open>
  \<^verbatim>\<open>sklearn.utils.validation._num_samples\<close> on the values of \<open>pyobj\<close>: the first
  dimension of an array or sparse matrix, \<^verbatim>\<open>len\<close> of a string, and a \<^verbatim>\<open>TypeError\<close>
  for an object with neither a length nor a shape.
\<close>

fun num_samples :: "pyobj \<Rightarrow> error + nat" where
  "num_samples (PyArray a) = Inr (n_rows a)"
| "num_samples (PyStr s) = Inr (length s)"
| "num_samples PyNone = Inl (TypeError ''Expected sequence or array-like'')"
| "num_samples (PyOpaque t) = Inl (TypeError ''Expected sequence or array-like'')"

text \<open>\<^verbatim>\<open>self.__class__.__name__\<close> is the one attribute every estimator has.\<close>

record estimator =
  class_name :: string

section \<open>The conditions chain\<close>

text \<open>
  Modelled from the spec: the class \<^verbatim>\<open>PatchingConditionsChain\<close> (imported from
  \<^verbatim>\<open>sklearnex._utils\<close>) is not among the sources. The spec describes the value a
  predicate computes as a boolean plus an ordered list of (condition description, passed)
  pairs, in which all conditions must pass (logical AND) for support. The source hands
  \<^verbatim>\<open>and_conditions\<close> a list of (condition, message) pairs.
\<close>

record PatchingConditionsChain =
  scope_name :: string
  patching_is_enabled :: bool
  conditions :: "(string \<times> bool) list"

text \<open>
  Modelled from the spec: the constructor of \<^verbatim>\<open>PatchingConditionsChain\<close>, which is not
  among the sources; a chain starts out enabled and with no conditions.
\<close>

definition new_chain :: "string \<Rightarrow> PatchingConditionsChain" where
  "new_chain scope = \<lparr>scope_name = scope, patching_is_enabled = True, conditions = []\<rparr>"

text \<open>
  Modelled from the spec: the method \<^verbatim>\<open>and_conditions\<close> of \<^verbatim>\<open>PatchingConditionsChain\<close>,
  which is not among the sources; all conditions must pass for support, and each is
  recorded with its description and outcome, in order.
\<close>

definition and_conditions ::
  "PatchingConditionsChain \<Rightarrow> (bool \<times> string) list \<Rightarrow> PatchingConditionsChain" where
  "and_conditions chain conditions_and_messages =
     chain\<lparr>patching_is_enabled :=
             patching_is_enabled chain \<and> list_all fst conditions_and_messages,
           conditions :=
             conditions chain @ map (\<lambda>(condition, message). (message, condition))
                                    conditions_and_messages\<rparr>"

text \<open>
  What a capability predicate hands back: the KMeans predicates return a conditions chain,
  the PCA predicates return a Python \<^verbatim>\<open>bool\<close>.
\<close>

datatype patching_status = PyBool bool | Chain PatchingConditionsChain

section \<open>sklearnex/preview/cluster/k\_means.py\<close>

text \<open>
  The attributes of a \<^verbatim>\<open>KMeans\<close> instance that the dispatch code reads or writes.
  \<open>p_algorithm\<close> is the attribute \<^verbatim>\<open>_algorithm\<close> (\<open>None\<close> while it does not exist);
  \<open>cluster_centers\<close> is \<^verbatim>\<open>cluster_centers_\<close>, which the class body initialises to
  \<^verbatim>\<open>None\<close>. Every other attribute lives in the extension slot of the record.
\<close>

record KMeans = estimator +
  n_clusters :: int
  init :: pyobj
  algorithm :: string
  p_algorithm :: "string option"
  cluster_centers :: pyobj

type_synonym ('r, 's) outcome = "(error + 'r) \<times> 's"

definition supported_algs :: "string list" where
  "supported_algs = [''auto'', ''full'', ''lloyd'']"

definition KMeans_onedal_fit_supported ::
  "'z KMeans_scheme \<Rightarrow> string \<Rightarrow> pyobj \<Rightarrow> pyobj \<Rightarrow> pyobj
     \<Rightarrow> (patching_status, 'z KMeans_scheme) outcome" where
  "KMeans_onedal_fit_supported self method_name X y sample_weight =
     (if method_name \<noteq> ''fit'' then (Inl AssertionError, self)
      else
        let patching_status = new_chain (''sklearn.cluster.'' @ class_name self @ ''.fit'') in
        case num_samples X of
          Inl err \<Rightarrow> (Inl err, self)
        | Inr sample_count \<Rightarrow>
            let self' = self\<lparr>p_algorithm := Some (algorithm self)\<rparr>;
                correct_count = (n_clusters self' < int sample_count);
                patching_status = and_conditions patching_status
                  [(algorithm self' \<in> set supported_algs, ''Only lloyd algorithm is supported.''),
                   (\<not> issparse (init self'), ''Sparse init values are not supported''),
                   (correct_count, ''n_clusters is smaller than number of samples''),
                   (sample_weight = PyNone, ''Sample weight is not None.''),
                   (\<not> issparse X, ''Sparse input is not supported.'')]
            in (Inr (Chain patching_status), self'))"

definition KMeans_onedal_predict_supported ::
  "'z KMeans_scheme \<Rightarrow> string \<Rightarrow> pyobj \<Rightarrow> (patching_status, 'z KMeans_scheme) outcome" where
  "KMeans_onedal_predict_supported self method_name X =
     (if method_name \<noteq> ''predict'' then (Inl AssertionError, self)
      else
        let patching_status = new_chain (''sklearn.cluster.'' @ class_name self @ ''.predict'');
            dense_centers = (\<not> issparse (cluster_centers self));
            patching_status = and_conditions patching_status
              [(algorithm self \<in> set supported_algs, ''Only lloyd algorithm is supported.''),
               (dense_centers, ''Sparse clusters is not supported.''),
               (\<not> issparse X, ''Sparse input is not supported.'')]
        in (Inr (Chain patching_status), self))"

text \<open>
  \<^verbatim>\<open>*data\<close> is bound to the parameters \<^verbatim>\<open>(X, y=None, sample_weight=None)\<close> of the fit
  predicate and to \<^verbatim>\<open>(X)\<close> of the predict predicate; any other number of arguments is a
  \<^verbatim>\<open>TypeError\<close> of the call.
\<close>

fun bind_fit_data :: "pyobj list \<Rightarrow> error + pyobj \<times> pyobj \<times> pyobj" where
  "bind_fit_data [X] = Inr (X, PyNone, PyNone)"
| "bind_fit_data [X, y] = Inr (X, y, PyNone)"
| "bind_fit_data [X, y, sample_weight] = Inr (X, y, sample_weight)"
| "bind_fit_data _ = Inl (TypeError ''_onedal_fit_supported'')"

fun bind_predict_data :: "pyobj list \<Rightarrow> error + pyobj" where
  "bind_predict_data [X] = Inr X"
| "bind_predict_data _ = Inl (TypeError ''_onedal_predict_supported'')"

definition KMeans_onedal_supported ::
  "'z KMeans_scheme \<Rightarrow> string \<Rightarrow> pyobj list \<Rightarrow> (patching_status, 'z KMeans_scheme) outcome" where
  "KMeans_onedal_supported self method_name data =
     (if method_name = ''fit'' then
        (case bind_fit_data data of
           Inl err \<Rightarrow> (Inl err, self)
         | Inr (X, y, sample_weight) \<Rightarrow>
             KMeans_onedal_fit_supported self method_name X y sample_weight)
      else if method_name = ''predict'' then
        (case bind_predict_data data of
           Inl err \<Rightarrow> (Inl err, self)
         | Inr X \<Rightarrow> KMeans_onedal_predict_supported self method_name X)
      else (Inl (RuntimeError (''Unknown method '' @ method_name @ '' in '' @ class_name self)),
            self))"

definition KMeans_onedal_gpu_supported ::
  "'z KMeans_scheme \<Rightarrow> string \<Rightarrow> pyobj list \<Rightarrow> (patching_status, 'z KMeans_scheme) outcome" where
  "KMeans_onedal_gpu_supported self method_name data =
     KMeans_onedal_supported self method_name data"

definition KMeans_onedal_cpu_supported ::
  "'z KMeans_scheme \<Rightarrow> string \<Rightarrow> pyobj list \<Rightarrow> (patching_status, 'z KMeans_scheme) outcome" where
  "KMeans_onedal_cpu_supported self method_name data =
     KMeans_onedal_supported self method_name data"

section \<open>Version probing\<close>

text \<open>Decimal numerals: the value of a string of ASCII digits.\<close>

definition is_digit :: "char \<Rightarrow> bool" where
  "is_digit c = (c \<in> set ''0123456789'')"

definition digit_val :: "char \<Rightarrow> nat" where
  "digit_val c = of_char c - 48"

definition nat_of_digits :: "string \<Rightarrow> nat" where
  "nat_of_digits ds = foldl (\<lambda>acc c. 10 * acc + digit_val c) 0 ds"

fun split_on :: "char \<Rightarrow> string \<Rightarrow> string list" where
  "split_on sep [] = [[]]"
| "split_on sep (c # cs) =
     (if c = sep then [] # split_on sep cs
      else (case split_on sep cs of
              [] \<Rightarrow> [[c]]
            | w # ws \<Rightarrow> (c # w) # ws))"

definition parse_version :: "string \<Rightarrow> nat list" where
  "parse_version ver = map nat_of_digits (split_on CHR ''.'' ver)"

text \<open>Release numbers compare component by component; missing components count as zero.\<close>

fun version_le :: "nat list \<Rightarrow> nat list \<Rightarrow> bool" where
  "version_le [] ys = True"
| "version_le (x # xs) [] = (x = 0 \<and> version_le xs [])"
| "version_le (x # xs) (y # ys) = (x < y \<or> (x = y \<and> version_le xs ys))"

text \<open>
  Modelled from the spec: \<^verbatim>\<open>sklearn_check_version\<close> (imported from
  \<^verbatim>\<open>daal4py.sklearn._utils\<close>) is not among the sources. The spec describes version
  probing as a boolean query whether the library is available at a version at least the
  one asked for; the installed release of scikit-learn is a parameter.
\<close>

definition sklearn_check_version :: "nat list \<Rightarrow> string \<Rightarrow> bool" where
  "sklearn_check_version sklearn_version ver = version_le (parse_version ver) sklearn_version"

section \<open>The dispatcher\<close>

text \<open>
  A run of a dispatched method: what it returned or raised, the state it left, and the
  names of the backends whose callable was executed, in order.
\<close>

record ('r, 's) run =
  result :: "error + 'r"
  state :: 's
  executed :: "string list"

type_synonym 's predicate = "'s \<Rightarrow> string \<Rightarrow> pyobj list \<Rightarrow> (patching_status, 's) outcome"

type_synonym ('r, 's) callable = "'s \<Rightarrow> pyobj list \<Rightarrow> ('r, 's) outcome"

definition raised :: "error \<Rightarrow> 's \<Rightarrow> ('r, 's) run" where
  "raised err self = \<lparr>result = Inl err, state = self, executed = []\<rparr>"

text \<open>
  The dispatcher \<^verbatim>\<open>dispatch\<close> (imported from \<^verbatim>\<open>sklearnex._device_offload\<close>) is not
  among the sources; the definitions below follow the spec. The spec gives its contract as
  \<^verbatim>\<open>dispatch(estimator, method_name, {backend_name: callable, ...}, *args)\<close>: for each
  available backend in the fixed priority order accelerated-device, accelerated-host,
  reference, the capability predicate is queried and the first backend whose predicate
  passes is executed; the reference implementation is tried when no accelerated backend
  qualifies; an error raised by a predicate is fatal. Both accelerated backends run the
  callable stored under \<^verbatim>\<open>"onedal"\<close>, the reference is the callable stored under
  \<^verbatim>\<open>"sklearn"\<close>, and looking up a name the mapping lacks is a \<^verbatim>\<open>KeyError\<close>.
\<close>

text \<open>
  Modelled from the spec: the boolean of a predicate's answer, as the dispatcher (not among
  the sources) reads it.
\<close>

fun get_status :: "patching_status \<Rightarrow> bool" where
  "get_status (PyBool b) = b"
| "get_status (Chain chain) = patching_is_enabled chain"

text \<open>
  Modelled from the spec: the execution of the chosen backend by the dispatcher (not among
  the sources); the callable is looked up under the backend's name and run once.
\<close>

definition run_backend ::
  "(string \<rightharpoonup> ('r, 's) callable) \<Rightarrow> string \<Rightarrow> 's \<Rightarrow> pyobj list \<Rightarrow> ('r, 's) run" where
  "run_backend branches backend self args =
     (case branches backend of
        None \<Rightarrow> raised (KeyError backend) self
      | Some f \<Rightarrow>
          (case f self args of
             (r, self') \<Rightarrow> \<lparr>result = r, state = self', executed = [backend]\<rparr>))"

text \<open>
  Modelled from the spec: the loop of the dispatcher (not among the sources) over the
  accelerated backends in priority order, ending with the reference backend.
\<close>

fun try_backends ::
  "'s predicate list \<Rightarrow> 's \<Rightarrow> string \<Rightarrow> (string \<rightharpoonup> ('r, 's) callable) \<Rightarrow> pyobj list
     \<Rightarrow> ('r, 's) run" where
  "try_backends [] self method_name branches args =
     run_backend branches ''sklearn'' self args"
| "try_backends (supported # rest) self method_name branches args =
     (case supported self method_name args of
        (Inl err, self') \<Rightarrow> raised err self'
      | (Inr status, self') \<Rightarrow>
          if get_status status then run_backend branches ''onedal'' self' args
          else try_backends rest self' method_name branches args)"

text \<open>
  Modelled from the spec: \<^verbatim>\<open>dispatch\<close> itself (not among the sources); the accelerator
  device is asked first when one is selected, then the host.
\<close>

definition dispatch ::
  "bool \<Rightarrow> 's predicate \<Rightarrow> 's predicate \<Rightarrow> 's \<Rightarrow> string
     \<Rightarrow> (string \<rightharpoonup> ('r, 's) callable) \<Rightarrow> pyobj list \<Rightarrow> ('r, 's) run" where
  "dispatch gpu_available gpu_supported cpu_supported self method_name branches args =
     try_backends ((if gpu_available then [gpu_supported] else []) @ [cpu_supported])
       self method_name branches args"

section \<open>KMeans.fit and KMeans.predict\<close>

text \<open>
  What the two methods call outside this file: whether an accelerator device is
  selected, the installed scikit-learn release, the validation steps inherited from
  scikit-learn, the two backends of each method, and the \<^verbatim>\<open>wrap_output_data\<close>
  decorator.
\<close>

record ('r, 's) KMeans_externals =
  gpu_available :: bool
  sklearn_version :: "nat list"
  check_feature_names :: "'s \<Rightarrow> pyobj \<Rightarrow> (unit, 's) outcome"
  validate_params :: "'s \<Rightarrow> (unit, 's) outcome"
  onedal_fit :: "('r, 's) callable"
  sklearn_KMeans_fit :: "('r, 's) callable"
  onedal_predict :: "('r, 's) callable"
  sklearn_KMeans_predict :: "('r, 's) callable"
  wrap_output_data :: "'r \<Rightarrow> 'r"

definition KMeans_fit_branches ::
  "('r, 's) KMeans_externals \<Rightarrow> (string \<rightharpoonup> ('r, 's) callable)" where
  "KMeans_fit_branches ext = [''onedal'' \<mapsto> onedal_fit ext, ''sklearn'' \<mapsto> sklearn_KMeans_fit ext]"

definition KMeans_predict_branches ::
  "('r, 's) KMeans_externals \<Rightarrow> (string \<rightharpoonup> ('r, 's) callable)" where
  "KMeans_predict_branches ext =
     [''onedal'' \<mapsto> onedal_predict ext, ''sklearn'' \<mapsto> sklearn_KMeans_predict ext]"

text \<open>The two version-conditional validation steps that open \<^verbatim>\<open>fit\<close> and \<^verbatim>\<open>predict\<close>.\<close>

definition KMeans_validate ::
  "('r, 's) KMeans_externals \<Rightarrow> 's \<Rightarrow> pyobj \<Rightarrow> (unit, 's) outcome" where
  "KMeans_validate ext self X =
     (case (if sklearn_check_version (sklearn_version ext) ''1.0''
            then check_feature_names ext self X else (Inr (), self)) of
        (Inl err, self') \<Rightarrow> (Inl err, self')
      | (Inr _, self') \<Rightarrow>
          if sklearn_check_version (sklearn_version ext) ''1.2''
          then validate_params ext self' else (Inr (), self'))"

definition KMeans_fit ::
  "('r, 'z KMeans_scheme) KMeans_externals \<Rightarrow> 'z KMeans_scheme \<Rightarrow> pyobj \<Rightarrow> pyobj \<Rightarrow> pyobj
     \<Rightarrow> (unit, 'z KMeans_scheme) run" where
  "KMeans_fit ext self X y sample_weight =
     (case KMeans_validate ext self X of
        (Inl err, self') \<Rightarrow> raised err self'
      | (Inr _, self') \<Rightarrow>
          let r = dispatch (gpu_available ext)
                    KMeans_onedal_gpu_supported KMeans_onedal_cpu_supported
                    self' ''fit'' (KMeans_fit_branches ext) [X, y, sample_weight]
          in \<lparr>result = (case result r of Inl err \<Rightarrow> Inl err | Inr _ \<Rightarrow> Inr ()),
              state = state r, executed = executed r\<rparr>)"

definition KMeans_predict ::
  "('r, 'z KMeans_scheme) KMeans_externals \<Rightarrow> 'z KMeans_scheme \<Rightarrow> pyobj
     \<Rightarrow> ('r, 'z KMeans_scheme) run" where
  "KMeans_predict ext self X =
     (case KMeans_validate ext self X of
        (Inl err, self') \<Rightarrow> raised err self'
      | (Inr _, self') \<Rightarrow>
          let r = dispatch (gpu_available ext)
                    KMeans_onedal_gpu_supported KMeans_onedal_cpu_supported
                    self' ''predict'' (KMeans_predict_branches ext) [X]
          in \<lparr>result = (case result r of Inl err \<Rightarrow> Inl err
                                        | Inr v \<Rightarrow> Inr (wrap_output_data ext v)),
              state = state r, executed = executed r\<rparr>)"

section \<open>sklearnex/decomposition/pca.py\<close>

text \<open>
  \<^verbatim>\<open>n_components\<close> may be \<^verbatim>\<open>None\<close>, a number or the string \<^verbatim>\<open>"mle"\<close>. A number,
  an \<^verbatim>\<open>int\<close> or a finite \<^verbatim>\<open>float\<close>, is modelled by the rational it denotes; Python
  compares an \<^verbatim>\<open>int\<close> with a \<^verbatim>\<open>float\<close> by their exact values.
\<close>

datatype n_components_value = NcNone | NcNum rat | NcStr string

text \<open>
  The attributes of a \<^verbatim>\<open>PCA\<close> instance that the dispatch code reads or writes.
  \<open>p_fit_svd_solver\<close> is \<^verbatim>\<open>_fit_svd_solver\<close>, \<open>p_onedal_estimator\<close> is
  \<^verbatim>\<open>_onedal_estimator\<close> and \<open>components\<close> is the fitted attribute \<^verbatim>\<open>components_\<close>, each
  \<open>None\<close> while the attribute does not exist. The remaining constructor arguments and
  fitted attributes live in the extension slot. The state of a call also holds the lines
  written to standard output.
\<close>

record PCA = estimator +
  n_components :: n_components_value
  copy :: bool
  svd_solver :: string
  p_fit_svd_solver :: "string option"
  p_onedal_estimator :: "pyobj option"
  components :: "pyobj option"

type_synonym 'z PCA_state = "'z PCA_scheme \<times> string list"

definition print :: "string \<Rightarrow> 'z PCA_state \<Rightarrow> 'z PCA_state" where
  "print line st = (fst st, snd st @ [line])"

definition PCA_onedal_gpu_supported :: "'z PCA_state predicate" where
  "PCA_onedal_gpu_supported st method_name data =
     (let st' = print ''call _onedall_gpu_supported'' st; self = fst st' in
      if method_name = ''decomposition.PCA.fit'' then
        (case p_fit_svd_solver self of
           None \<Rightarrow> (Inl (AttributeError ''_fit_svd_solver''), st')
         | Some solver \<Rightarrow> (Inr (PyBool (solver = ''cov'')), st'))
      else if method_name = ''decomposition.PCA.transform'' then
        (Inr (PyBool (p_onedal_estimator self \<noteq> None)), st')
      else (Inl (RuntimeError (''Unknown method '' @ method_name @ '' in '' @ class_name self)),
            st'))"

definition PCA_onedal_cpu_supported :: "'z PCA_state predicate" where
  "PCA_onedal_cpu_supported st method_name data =
     (let self = fst st in
      if method_name = ''decomposition.PCA.fit'' then
        (case p_fit_svd_solver self of
           None \<Rightarrow> (Inl (AttributeError ''_fit_svd_solver''), st)
         | Some solver \<Rightarrow> (Inr (PyBool (solver \<in> set [''cov'', ''full''])), st))
      else if method_name = ''decomposition.PCA.transform'' then
        (Inr (PyBool (p_onedal_estimator self \<noteq> None)), st)
      else (Inl (RuntimeError (''Unknown method '' @ method_name @ '' in '' @ class_name self)),
            st))"

text \<open>
  What \<^verbatim>\<open>_fit\<close> and \<^verbatim>\<open>transform\<close> call outside this file. \<^verbatim>\<open>_check_array\<close> receives
  the input and the \<^verbatim>\<open>copy\<close> flag and returns a validated two-dimensional array;
  \<^verbatim>\<open>_fit_truncated\<close> is called by the source with the three arguments
  \<^verbatim>\<open>(X, n_components, self._fit_svd_solver)\<close>.
\<close>

record ('r, 's) PCA_externals =
  device_available :: bool
  check_array :: "pyobj \<Rightarrow> bool \<Rightarrow> error + array_like"
  check_is_fitted :: "'s \<Rightarrow> error + unit"
  PCA_onedal_fit :: "('r, 's) callable"
  sklearn_PCA_fit_full :: "('r, 's) callable"
  sklearn_PCA_fit_truncated :: "array_like \<Rightarrow> n_components_value \<Rightarrow> string \<Rightarrow> error + 'r"
  PCA_onedal_predict :: "('r, 's) callable"
  sklearn_PCA_transform :: "('r, 's) callable"

definition PCA_fit_full_branches ::
  "('r, 's) PCA_externals \<Rightarrow> (string \<rightharpoonup> ('r, 's) callable)" where
  "PCA_fit_full_branches ext =
     [''onedal'' \<mapsto> PCA_onedal_fit ext, ''sklearn'' \<mapsto> sklearn_PCA_fit_full ext]"

definition PCA_fit_cov_branches ::
  "('r, 's) PCA_externals \<Rightarrow> (string \<rightharpoonup> ('r, 's) callable)" where
  "PCA_fit_cov_branches ext = [''onedal'' \<mapsto> PCA_onedal_fit ext]"

definition PCA_transform_branches ::
  "('r, 's) PCA_externals \<Rightarrow> (string \<rightharpoonup> ('r, 's) callable)" where
  "PCA_transform_branches ext =
     [''onedal'' \<mapsto> PCA_onedal_predict ext, ''sklearn'' \<mapsto> sklearn_PCA_transform ext]"

definition min_shape :: "array_like \<Rightarrow> nat" where
  "min_shape X = min (n_rows X) (n_cols X)"

definition max_shape :: "array_like \<Rightarrow> nat" where
  "max_shape X = max (n_rows X) (n_cols X)"

text \<open>The local \<^verbatim>\<open>n_components\<close> of \<^verbatim>\<open>_fit\<close>.\<close>

definition fit_n_components :: "'z PCA_scheme \<Rightarrow> array_like \<Rightarrow> n_components_value" where
  "fit_n_components self X =
     (if n_components self = NcNone then
        (if svd_solver self \<noteq> ''arpack'' then NcNum (of_nat (min_shape X))
         else NcNum (of_nat (min_shape X) - 1))
      else n_components self)"

text \<open>
  Floating point. A finite double is the rational it denotes. \<open>round_double\<close> rounds a
  nonnegative rational to the nearest double, ties to the even significand (53 bits); the
  exponent range is not bounded here, so the one overflow that can occur, the conversion
  of a huge \<^verbatim>\<open>int\<close>, is tested where it occurs.
\<close>

function bit_length :: "int \<Rightarrow> int" where
  "bit_length n = (if n \<le> 0 then 0 else bit_length (n div 2) + 1)"
  by pat_completeness auto
termination
  by (relation "measure nat") auto

declare bit_length.simps [simp del]

definition pow2 :: "int \<Rightarrow> rat" where
  "pow2 k = (if k \<ge> 0 then 2 ^ nat k else 1 / 2 ^ nat (- k))"

definition floor_log2 :: "rat \<Rightarrow> int" where
  "floor_log2 q =
     (case quotient_of q of
        (a, b) \<Rightarrow>
          let k = bit_length a - bit_length b
          in if pow2 k \<le> q then k else k - 1)"

definition round_half_even :: "rat \<Rightarrow> int" where
  "round_half_even r =
     (let f = \<lfloor>r\<rfloor>; d = r - of_int f
      in if d < 1 / 2 then f else if d > 1 / 2 then f + 1 else if even f then f else f + 1)"

definition round_double :: "rat \<Rightarrow> rat" where
  "round_double q =
     (if q \<le> 0 then 0
      else let scale = pow2 (52 - floor_log2 q)
           in of_int (round_half_even (q * scale)) / scale)"

text \<open>The double that the literal \<^verbatim>\<open>0.8\<close> denotes.\<close>

definition double_0_8 :: rat where
  "double_0_8 = 3602879701896397 / 4503599627370496"

text \<open>
  \<^verbatim>\<open>0.8 * m\<close> for an \<^verbatim>\<open>int\<close> \<open>m\<close> that is not negative: \<open>m\<close> is converted to a double,
  which is an \<^verbatim>\<open>OverflowError\<close> when it rounds beyond the largest double, and the product
  of the two doubles is rounded.
\<close>

definition times_0_8 :: "nat \<Rightarrow> error + rat" where
  "times_0_8 m =
     (let x = round_double (of_nat m)
      in if x \<ge> 2 ^ 1024 then Inl (OverflowError ''int too large to convert to float'')
         else Inr (round_double (double_0_8 * x)))"

text \<open>
  The resolution of \<^verbatim>\<open>svd_solver == "auto"\<close>. Comparing a string other than
  \<^verbatim>\<open>"mle"\<close>, or \<^verbatim>\<open>None\<close>, with a number is a \<^verbatim>\<open>TypeError\<close>; the product is only
  evaluated when \<^verbatim>\<open>n_components >= 1\<close> holds.
\<close>

definition resolve_auto :: "n_components_value \<Rightarrow> array_like \<Rightarrow> error + string" where
  "resolve_auto n_comp X =
     (if max_shape X \<le> 500 \<or> n_comp = NcStr ''mle'' then Inr ''full''
      else (case n_comp of
              NcNum q \<Rightarrow>
                if q \<ge> 1 then
                  (case times_0_8 (min_shape X) of
                     Inl err \<Rightarrow> Inl err
                   | Inr bound \<Rightarrow> if q < bound then Inr ''randomized'' else Inr ''full'')
                else Inr ''full''
            | _ \<Rightarrow> Inl (TypeError ''>='')))"

text \<open>The value \<^verbatim>\<open>_fit_svd_solver\<close> ends up with.\<close>

definition fit_svd_solver :: "'z PCA_scheme \<Rightarrow> array_like \<Rightarrow> error + string" where
  "fit_svd_solver self X =
     (if svd_solver self = ''auto'' then resolve_auto (fit_n_components self X) X
      else Inr (svd_solver self))"

definition PCA_fit_impl ::
  "('r, 'z PCA_state) PCA_externals \<Rightarrow> 'z PCA_state \<Rightarrow> pyobj \<Rightarrow> ('r, 'z PCA_state) run" where
  "PCA_fit_impl ext st X =
     (if issparse X then
        raised (TypeError
          ''PCA does not support sparse input. See TruncatedSVD for a possible alternative.'') st
      else
        case check_array ext X (copy (fst st)) of
          Inl err \<Rightarrow> raised err st
        | Inr X \<Rightarrow>
            let self = fst st;
                n_comp = fit_n_components self X;
                st1 = (self\<lparr>p_fit_svd_solver := Some (svd_solver self)\<rparr>, snd st)
            in (case fit_svd_solver self X of
                 Inl err \<Rightarrow> raised err st1
               | Inr solver \<Rightarrow>
                   let st2 = ((fst st1)\<lparr>p_fit_svd_solver := Some solver\<rparr>, snd st1) in
                   if solver = ''full'' then
                     dispatch (device_available ext)
                       PCA_onedal_gpu_supported PCA_onedal_cpu_supported
                       st2 ''decomposition.PCA.fit'' (PCA_fit_full_branches ext) [PyArray X]
                   else if solver = ''cov'' then
                     dispatch (device_available ext)
                       PCA_onedal_gpu_supported PCA_onedal_cpu_supported
                       st2 ''decomposition.PCA.fit'' (PCA_fit_cov_branches ext) [PyArray X]
                   else if solver \<in> set [''arpack'', ''randomized''] then
                     \<lparr>result = sklearn_PCA_fit_truncated ext X n_comp solver,
                      state = st2, executed = []\<rparr>
                   else
                     raised (ValueError (''Unrecognized svd_solver='' @ [CHR 0x27]
                                          @ solver @ [CHR 0x27])) st2))"

definition PCA_fit ::
  "('r, 'z PCA_state) PCA_externals \<Rightarrow> 'z PCA_state \<Rightarrow> pyobj \<Rightarrow> (unit, 'z PCA_state) run" where
  "PCA_fit ext st X =
     (let r = PCA_fit_impl ext st X
      in \<lparr>result = (case result r of Inl err \<Rightarrow> Inl err | Inr _ \<Rightarrow> Inr ()),
          state = state r, executed = executed r\<rparr>)"

definition PCA_transform ::
  "('r, 'z PCA_state) PCA_externals \<Rightarrow> 'z PCA_state \<Rightarrow> pyobj \<Rightarrow> ('r, 'z PCA_state) run" where
  "PCA_transform ext st X =
     (case check_is_fitted ext st of
        Inl err \<Rightarrow> raised err st
      | Inr _ \<Rightarrow>
          (case check_array ext X (copy (fst st)) of
             Inl err \<Rightarrow> raised err st
           | Inr X \<Rightarrow>
               dispatch (device_available ext)
                 PCA_onedal_gpu_supported PCA_onedal_cpu_supported
                 st ''decomposition.PCA.transform'' (PCA_transform_branches ext) [PyArray X]))"

section \<open>scripts/version.py\<close>

text \<open>
  \<^verbatim>\<open>re.match(r'#define MACRO (\d+)', elem)\<close>: the pattern is anchored at the start of
  the line and the group is the longest run of digits after the blank; there is no match
  when that run is empty. Characters are taken as ASCII.
\<close>

definition re_match_define :: "string \<Rightarrow> string \<Rightarrow> string option" where
  "re_match_define macro elem =
     (let pat = ''#define '' @ macro @ '' '';
          digits = takeWhile is_digit (drop (length pat) elem)
      in if prefix pat elem \<and> digits \<noteq> [] then Some digits else None)"

text \<open>
  \<^verbatim>\<open>int(s)\<close> on the strings that reach it in this function, the empty string or a run
  of digits; the empty string is a \<^verbatim>\<open>ValueError\<close>. The cap that recent interpreters
  put on the length of a numeral is left out.
\<close>

definition py_int :: "string \<Rightarrow> error + int" where
  "py_int s =
     (if s \<noteq> [] \<and> list_all is_digit s then Inr (int (nat_of_digits s))
      else Inl (ValueError (''invalid literal for int() with base 10: '' @ s)))"

record version_strings =
  major :: string
  minor :: string
  major_binary :: string
  minor_binary :: string

definition scan_macro ::
  "string \<Rightarrow> string \<Rightarrow> string \<Rightarrow> string" where
  "scan_macro macro elem current =
     (if sublist (''#define '' @ macro) elem then
        (case re_match_define macro elem of
           Some matched \<Rightarrow> matched
         | None \<Rightarrow> current)
      else current)"

text \<open>The body of the loop over the lines of the header.\<close>

definition scan_line :: "version_strings \<Rightarrow> string \<Rightarrow> version_strings" where
  "scan_line v elem =
     \<lparr>major = scan_macro ''__INTEL_DAAL__'' elem (major v),
      minor = scan_macro ''__INTEL_DAAL_MINOR__'' elem (minor v),
      major_binary = scan_macro ''__INTEL_DAAL_MAJOR_BINARY__'' elem (major_binary v),
      minor_binary = scan_macro ''__INTEL_DAAL_MINOR_BINARY__'' elem (minor_binary v)\<rparr>"

text \<open>
  \<open>header\<close> is the list of the lines of
  \<^verbatim>\<open><dal_root>/include/services/library_version_info.h\<close>, in file order.
\<close>

definition get_onedal_version :: "string list \<Rightarrow> error + int \<times> int \<times> int" where
  "get_onedal_version header =
     (let v = foldl scan_line
                \<lparr>major = [], minor = [], major_binary = [], minor_binary = []\<rparr> header
      in case py_int (major v) of
           Inl err \<Rightarrow> Inl err
         | Inr major_n \<Rightarrow>
             (case py_int (minor v) of
                Inl err \<Rightarrow> Inl err
              | Inr minor_n \<Rightarrow>
                  (case py_int (major_binary v) of
                     Inl err \<Rightarrow> Inl err
                   | Inr major_binary_n \<Rightarrow>
                       (case py_int (minor_binary v) of
                          Inl err \<Rightarrow> Inl err
                        | Inr minor_binary_n \<Rightarrow>
                            Inr (major_n * 10000 + minor_n * 100,
                                 major_binary_n, minor_binary_n)))))"

text \<open>
  The words of the specification: a line defines the macro as the numeral \<open>ds\<close> when it is
  \<^verbatim>\<open>#define MACRO ds\<close> followed by anything that does not continue the numeral; the
  value a header gives a macro is the one of the last line that defines it.
\<close>

definition line_defines :: "string \<Rightarrow> string \<Rightarrow> string \<Rightarrow> bool" where
  "line_defines macro ds elem \<longleftrightarrow>
     ds \<noteq> [] \<and> list_all is_digit ds \<and> prefix (''#define '' @ macro @ '' '' @ ds) elem \<and>
     (case drop (length (''#define '' @ macro @ '' '' @ ds)) elem of
        [] \<Rightarrow> True
      | c # _ \<Rightarrow> \<not> is_digit c)"

definition defined_numeral :: "string \<Rightarrow> string \<Rightarrow> string option" where
  "defined_numeral macro elem =
     (let ds = takeWhile is_digit (drop (length (''#define '' @ macro @ '' '')) elem)
      in if line_defines macro ds elem then Some ds else None)"

fun last_definition :: "string \<Rightarrow> string list \<Rightarrow> string option" where
  "last_definition macro [] = None"
| "last_definition macro (elem # rest) =
     (case last_definition macro rest of
        Some ds \<Rightarrow> Some ds
      | None \<Rightarrow> defined_numeral macro elem)"

section \<open>.ci/scripts/get\_compatible\_scipy\_version.py\<close>

text \<open>The script, as the list of the lines it prints for an installed scikit-learn release.\<close>

definition get_compatible_scipy_version :: "nat list \<Rightarrow> string list" where
  "get_compatible_scipy_version sklearn_release =
     (if sklearn_check_version sklearn_release ''1.2'' then [''scipy==1.9'']
      else if sklearn_check_version sklearn_release ''1.1'' then [''scipy==1.8'']
      else if sklearn_check_version sklearn_release ''1.0'' then [''scipy==1.7'']
      else if sklearn_check_version sklearn_release ''0.24'' then [''scipy==1.6'']
      else [''scipy''])"

text \<open>
  The pin a requirement line carries: the release after \<^verbatim>\<open>==\<close>, or nothing for the bare
  package name. An unpinned requirement is below every pin.
\<close>

definition scipy_pin :: "string \<Rightarrow> nat list option" where
  "scipy_pin line =
     (if prefix ''scipy=='' line then Some (parse_version (drop 7 line)) else None)"

fun pin_le :: "nat list option \<Rightarrow> nat list option \<Rightarrow> bool" where
  "pin_le None _ = True"
| "pin_le (Some a) None = False"
| "pin_le (Some a) (Some b) = version_le a b"

section \<open>Concrete instances\<close>

text \<open>
  A freshly constructed estimator of each class, the data set of the repository's test
  (40 samples, 4 features), a sparse matrix of the same shape, and backends that only
  report their name.
\<close>

definition fresh_KMeans :: KMeans where
  "fresh_KMeans =
     \<lparr>class_name = ''KMeans'', n_clusters = 8, init = PyStr ''k-means++'',
      algorithm = ''lloyd'', p_algorithm = None, cluster_centers = PyNone\<rparr>"

definition fresh_PCA :: "string \<Rightarrow> PCA" where
  "fresh_PCA solver =
     \<lparr>class_name = ''PCA'', n_components = NcNone, copy = True, svd_solver = solver,
      p_fit_svd_solver = None, p_onedal_estimator = None, components = None\<rparr>"

text \<open>
  A fitted \<^verbatim>\<open>PCA\<close>: the solver has been resolved and \<^verbatim>\<open>components_\<close> exists;
  \<^verbatim>\<open>_onedal_estimator\<close> exists when the accelerated backend did the fit.
\<close>

definition fitted_PCA :: "string \<Rightarrow> pyobj option \<Rightarrow> PCA" where
  "fitted_PCA solver backend_estimator =
     \<lparr>class_name = ''PCA'', n_components = NcNone, copy = True, svd_solver = solver,
      p_fit_svd_solver = Some solver, p_onedal_estimator = backend_estimator,
      components = Some (PyArray (Array False 4 4 float64))\<rparr>"

definition dense_X :: pyobj where
  "dense_X = PyArray (Array False 40 4 float64)"

definition sparse_X :: pyobj where
  "sparse_X = PyArray (Array True 40 4 float64)"

definition named_backend :: "string \<Rightarrow> (pyobj, 's) callable" where
  "named_backend name self args = (Inr (PyStr name), self)"

definition plain_KMeans_externals :: "bool \<Rightarrow> (pyobj, KMeans) KMeans_externals" where
  "plain_KMeans_externals gpu =
     \<lparr>gpu_available = gpu, sklearn_version = [1, 3, 0],
      check_feature_names = (\<lambda>self X. (Inr (), self)),
      validate_params = (\<lambda>self. (Inr (), self)),
      onedal_fit = named_backend ''onedal'',
      sklearn_KMeans_fit = named_backend ''sklearn'',
      onedal_predict = named_backend ''onedal'',
      sklearn_KMeans_predict = named_backend ''sklearn'',
      wrap_output_data = (\<lambda>v. v)\<rparr>"

definition plain_check_array :: "pyobj \<Rightarrow> bool \<Rightarrow> error + array_like" where
  "plain_check_array X copy_flag =
     (case X of PyArray a \<Rightarrow> Inr a | _ \<Rightarrow> Inl (ValueError ''Expected 2D array''))"

text \<open>
  \<^verbatim>\<open>check_is_fitted\<close> of scikit-learn accepts an estimator that has a fitted attribute
  (one whose name ends with an underscore) and raises \<^verbatim>\<open>NotFittedError\<close> otherwise.
\<close>

definition plain_check_is_fitted :: "'z PCA_state \<Rightarrow> error + unit" where
  "plain_check_is_fitted st =
     (if components (fst st) = None
      then Inl (NotFittedError ''This PCA instance is not fitted yet.'')
      else Inr ())"

definition plain_PCA_externals :: "bool \<Rightarrow> (pyobj, unit PCA_state) PCA_externals" where
  "plain_PCA_externals gpu =
     \<lparr>device_available = gpu,
      check_array = plain_check_array,
      check_is_fitted = plain_check_is_fitted,
      PCA_onedal_fit = named_backend ''onedal'',
      sklearn_PCA_fit_full = named_backend ''sklearn'',
      sklearn_PCA_fit_truncated = (\<lambda>X n_comp solver. Inr (PyStr ''sklearn'')),
      PCA_onedal_predict = named_backend ''onedal'',
      sklearn_PCA_transform = named_backend ''sklearn''\<rparr>"

text \<open>A header that defines the major version twice.\<close>

definition twice_defined_header :: "string list" where
  "twice_defined_header =
     [''#define __INTEL_DAAL__ 2021'' @ [CHR 0x0A],
      ''#define __INTEL_DAAL__ 2023'' @ [CHR 0x0A],
      ''#define __INTEL_DAAL_MINOR__ 1'' @ [CHR 0x0A],
      ''#define __INTEL_DAAL_MAJOR_BINARY__ 1'' @ [CHR 0x0A],
      ''#define __INTEL_DAAL_MINOR_BINARY__ 0'' @ [CHR 0x0A]]"

text \<open>A header that defines each macro once, and one that lacks the minor version.\<close>

definition sample_header :: "string list" where
  "sample_header =
     [''/* library_version_info.h */'' @ [CHR 0x0A],
      ''#define __INTEL_DAAL__ 2023'' @ [CHR 0x0A],
      ''#define __INTEL_DAAL_MINOR__ 2'' @ [CHR 0x0A],
      ''#define __INTEL_DAAL_UPDATE__ 0'' @ [CHR 0x0A],
      ''#define __INTEL_DAAL_MAJOR_BINARY__ 1'' @ [CHR 0x0A],
      ''#define __INTEL_DAAL_MINOR_BINARY__ 1'' @ [CHR 0x0A]]"

definition header_without_minor :: "string list" where
  "header_without_minor =
     [''#define __INTEL_DAAL__ 2023'' @ [CHR 0x0A],
      ''#define __INTEL_DAAL_MAJOR_BINARY__ 1'' @ [CHR 0x0A],
      ''#define __INTEL_DAAL_MINOR_BINARY__ 1'' @ [CHR 0x0A]]"

section \<open>The KMeans predicates\<close>

text \<open>What the two KMeans predicates compute when they are called with their own method name.\<close>

lemma fit_supported_result:
  assumes "num_samples X = Inr sample_count"
  shows "KMeans_onedal_fit_supported self ''fit'' X y sample_weight =
    (Inr (Chain \<lparr>scope_name = ''sklearn.cluster.'' @ class_name self @ ''.fit'',
        patching_is_enabled =
          (algorithm self \<in> {''auto'', ''full'', ''lloyd''} \<and> \<not> issparse (init self) \<and>
           n_clusters self < int sample_count \<and> sample_weight = PyNone \<and> \<not> issparse X),
        conditions =
          [(''Only lloyd algorithm is supported.'', algorithm self \<in> {''auto'', ''full'', ''lloyd''}),
           (''Sparse init values are not supported'', \<not> issparse (init self)),
           (''n_clusters is smaller than number of samples'', n_clusters self < int sample_count),
           (''Sample weight is not None.'', sample_weight = PyNone),
           (''Sparse input is not supported.'', \<not> issparse X)]\<rparr>),
     self\<lparr>p_algorithm := Some (algorithm self)\<rparr>)"
  using assms
  by (simp add: KMeans_onedal_fit_supported_def new_chain_def and_conditions_def
      supported_algs_def Let_def)

lemma fit_supported_failure:
  assumes "num_samples X = Inl err"
  shows "KMeans_onedal_fit_supported self ''fit'' X y sample_weight = (Inl err, self)"
  using assms by (simp add: KMeans_onedal_fit_supported_def Let_def)

lemma predict_supported_result:
  "KMeans_onedal_predict_supported self ''predict'' X =
    (Inr (Chain \<lparr>scope_name = ''sklearn.cluster.'' @ class_name self @ ''.predict'',
        patching_is_enabled =
          (algorithm self \<in> {''auto'', ''full'', ''lloyd''} \<and> \<not> issparse (cluster_centers self) \<and>
           \<not> issparse X),
        conditions =
          [(''Only lloyd algorithm is supported.'', algorithm self \<in> {''auto'', ''full'', ''lloyd''}),
           (''Sparse clusters is not supported.'', \<not> issparse (cluster_centers self)),
           (''Sparse input is not supported.'', \<not> issparse X)]\<rparr>),
     self)"
  by (simp add: KMeans_onedal_predict_supported_def new_chain_def and_conditions_def
      supported_algs_def Let_def)

lemma supported_fit:
  "KMeans_onedal_supported self ''fit'' [X, y, sample_weight] =
     KMeans_onedal_fit_supported self ''fit'' X y sample_weight"
  by (simp add: KMeans_onedal_supported_def)

lemma supported_predict:
  "KMeans_onedal_supported self ''predict'' [X] = KMeans_onedal_predict_supported self ''predict'' X"
  by (simp add: KMeans_onedal_supported_def)

lemma supported_unknown:
  "method_name \<noteq> ''fit'' \<Longrightarrow> method_name \<noteq> ''predict'' \<Longrightarrow>
   KMeans_onedal_supported self method_name data =
     (Inl (RuntimeError (''Unknown method '' @ method_name @ '' in '' @ class_name self)), self)"
  by (simp add: KMeans_onedal_supported_def)

lemma fit_supported_state:
  "snd (KMeans_onedal_fit_supported self method_name X y sample_weight) =
     (if method_name = ''fit'' \<and> \<not> isl (num_samples X)
      then self\<lparr>p_algorithm := Some (algorithm self)\<rparr> else self)"
  by (cases "num_samples X") (simp_all add: KMeans_onedal_fit_supported_def Let_def)

lemma predict_supported_state:
  "snd (KMeans_onedal_predict_supported self method_name X) = self"
  by (simp add: KMeans_onedal_predict_supported_def Let_def)

lemma supported_state:
  "snd (KMeans_onedal_supported self method_name data) = self \<or>
   snd (KMeans_onedal_supported self method_name data) =
     self\<lparr>p_algorithm := Some (algorithm self)\<rparr>"
  by (auto simp: KMeans_onedal_supported_def fit_supported_state predict_supported_state
      split: sum.splits)

text \<open>
  Claim C1. For every KMeans estimator and every fit call on an input that has a number of
  samples, the fit predicate reports the accelerated backend as supported if and only if
  all five conditions hold: the algorithm is one of "auto", "full", "lloyd", the init value
  is not sparse, \<^verbatim>\<open>n_clusters\<close> is strictly less than the number of samples, the sample
  weight is \<^verbatim>\<open>None\<close>, and the input is not sparse. In particular an estimator with
  \<^verbatim>\<open>algorithm="lloyd"\<close> and an init value that is not sparse (the constructor's default
  \<^verbatim>\<open>"k-means++"\<close> is a string), given dense float64 input with more samples than
  clusters and no sample weights, passes the predicate.
\<close>

theorem KMeans_fit_supported_iff:
  "(num_samples X = Inr sample_count \<longrightarrow>
      (\<exists>chain. fst (KMeans_onedal_fit_supported self ''fit'' X y sample_weight) = Inr chain \<and>
         (get_status chain \<longleftrightarrow>
            algorithm self \<in> {''auto'', ''full'', ''lloyd''} \<and> \<not> issparse (init self) \<and>
            n_clusters self < int sample_count \<and> sample_weight = PyNone \<and> \<not> issparse X))) \<and>
   (algorithm self = ''lloyd'' \<and> \<not> issparse (init self) \<and> n_clusters self < int n \<longrightarrow>
      (\<exists>chain. fst (KMeans_onedal_fit_supported self ''fit''
                       (PyArray (Array False n p float64)) y PyNone) = Inr chain \<and>
         get_status chain))"
  by (simp add: fit_supported_result)

theorem KMeans_fit_supported_iff_witness:
  "num_samples dense_X = Inr 40 \<and>
   algorithm fresh_KMeans = ''lloyd'' \<and> \<not> issparse (init fresh_KMeans) \<and>
   n_clusters fresh_KMeans < int 40 \<and>
   (\<exists>chain. fst (KMeans_onedal_fit_supported fresh_KMeans ''fit'' dense_X PyNone PyNone) = Inr chain \<and>
      get_status chain) \<and>
   (\<exists>chain. fst (KMeans_onedal_fit_supported fresh_KMeans ''fit'' sparse_X PyNone PyNone) = Inr chain \<and>
      \<not> get_status chain)"
  using KMeans_fit_supported_iff [of dense_X 40 fresh_KMeans PyNone PyNone 40 4]
    KMeans_fit_supported_iff [of sparse_X 40 fresh_KMeans PyNone PyNone 40 4]
  by (simp add: dense_X_def sparse_X_def fresh_KMeans_def)

section \<open>Unknown method names\<close>

text \<open>
  Claim C3. For KMeans and every method name other than "fit" and "predict", and for PCA
  and every method name other than "decomposition.PCA.fit" and
  "decomposition.PCA.transform", the capability predicates raise a \<^verbatim>\<open>RuntimeError\<close> whose
  message names the unknown method and the class; they return no answer.
\<close>

theorem unknown_method_raises:
  "(method_name \<notin> {''fit'', ''predict''} \<longrightarrow>
      fst (KMeans_onedal_supported self method_name data) =
        Inl (RuntimeError (''Unknown method '' @ method_name @ '' in '' @ class_name self)) \<and>
      fst (KMeans_onedal_gpu_supported self method_name data) =
        Inl (RuntimeError (''Unknown method '' @ method_name @ '' in '' @ class_name self)) \<and>
      fst (KMeans_onedal_cpu_supported self method_name data) =
        Inl (RuntimeError (''Unknown method '' @ method_name @ '' in '' @ class_name self))) \<and>
   (pca_method \<notin> {''decomposition.PCA.fit'', ''decomposition.PCA.transform''} \<longrightarrow>
      fst (PCA_onedal_gpu_supported st pca_method data) =
        Inl (RuntimeError (''Unknown method '' @ pca_method @ '' in '' @ class_name (fst st))) \<and>
      fst (PCA_onedal_cpu_supported st pca_method data) =
        Inl (RuntimeError (''Unknown method '' @ pca_method @ '' in '' @ class_name (fst st))))"
  by (simp add: supported_unknown KMeans_onedal_gpu_supported_def KMeans_onedal_cpu_supported_def
      PCA_onedal_gpu_supported_def PCA_onedal_cpu_supported_def print_def Let_def)

theorem unknown_method_raises_witness:
  "''transform'' \<notin> {''fit'', ''predict''} \<and>
   fst (KMeans_onedal_supported fresh_KMeans ''transform'' [dense_X]) =
     Inl (RuntimeError ''Unknown method transform in KMeans'') \<and>
   fst (KMeans_onedal_gpu_supported fresh_KMeans ''transform'' [dense_X]) =
     Inl (RuntimeError ''Unknown method transform in KMeans'') \<and>
   fst (KMeans_onedal_cpu_supported fresh_KMeans ''transform'' [dense_X]) =
     Inl (RuntimeError ''Unknown method transform in KMeans'') \<and>
   ''fit'' \<notin> {''decomposition.PCA.fit'', ''decomposition.PCA.transform''} \<and>
   fst (PCA_onedal_gpu_supported (fresh_PCA ''full'', []) ''fit'' [dense_X]) =
     Inl (RuntimeError ''Unknown method fit in PCA'') \<and>
   fst (PCA_onedal_cpu_supported (fresh_PCA ''full'', []) ''fit'' [dense_X]) =
     Inl (RuntimeError ''Unknown method fit in PCA'')"
  using unknown_method_raises [where method_name = "''transform''" and self = fresh_KMeans
      and data = "[dense_X]" and pca_method = "''fit''" and st = "(fresh_PCA ''full'', [])"]
  by (simp add: fresh_KMeans_def fresh_PCA_def)

section \<open>What a predicate call leaves behind\<close>

text \<open>
  Claim C4, as amended. Evaluating a capability predicate leaves every attribute of the
  estimator unchanged with one exception: the KMeans fit predicate, once it has the number
  of samples of the input, assigns the value of \<^verbatim>\<open>algorithm\<close> to the attribute
  \<^verbatim>\<open>_algorithm\<close>, creating it if it does not exist. The KMeans predict predicate and the
  two PCA predicates leave the estimator as it was; the PCA accelerator-device predicate
  writes one line to standard output.
\<close>

theorem predicates_frame:
  "snd (KMeans_onedal_fit_supported self method_name X y sample_weight) =
     (if method_name = ''fit'' \<and> \<not> isl (num_samples X)
      then self\<lparr>p_algorithm := Some (algorithm self)\<rparr> else self) \<and>
   snd (KMeans_onedal_predict_supported self method_name X) = self \<and>
   (\<exists>a. snd (KMeans_onedal_supported self method_name data) = self\<lparr>p_algorithm := a\<rparr> \<and>
        (a = p_algorithm self \<or> a = Some (algorithm self))) \<and>
   snd (PCA_onedal_gpu_supported st pca_method data) =
     (fst st, snd st @ [''call _onedall_gpu_supported'']) \<and>
   snd (PCA_onedal_cpu_supported st pca_method data) = st"
proof -
  have any: "\<exists>a. snd (KMeans_onedal_supported self method_name data) = self\<lparr>p_algorithm := a\<rparr> \<and>
        (a = p_algorithm self \<or> a = Some (algorithm self))"
  proof (cases "snd (KMeans_onedal_supported self method_name data) = self")
    case True
    then show ?thesis by (intro exI [of _ "p_algorithm self"]) simp
  next
    case False
    with supported_state [of self method_name data] show ?thesis by blast
  qed
  have gpu: "snd (PCA_onedal_gpu_supported st pca_method data) =
     (fst st, snd st @ [''call _onedall_gpu_supported''])"
    by (simp add: PCA_onedal_gpu_supported_def print_def Let_def split: option.splits)
  have cpu: "snd (PCA_onedal_cpu_supported st pca_method data) = st"
    by (simp add: PCA_onedal_cpu_supported_def Let_def split: option.splits)
  from fit_supported_state [of self method_name X y sample_weight]
    predict_supported_state [of self method_name X] any gpu cpu
  show ?thesis by blast
qed

theorem predicates_frame_witness:
  "snd (KMeans_onedal_fit_supported fresh_KMeans ''fit'' dense_X PyNone PyNone) =
     fresh_KMeans\<lparr>p_algorithm := Some ''lloyd''\<rparr> \<and>
   snd (KMeans_onedal_fit_supported fresh_KMeans ''fit'' PyNone PyNone PyNone) = fresh_KMeans \<and>
   snd (KMeans_onedal_predict_supported fresh_KMeans ''predict'' dense_X) = fresh_KMeans \<and>
   snd (PCA_onedal_gpu_supported (fresh_PCA ''cov'', []) ''decomposition.PCA.transform'' [dense_X]) =
     (fresh_PCA ''cov'', [''call _onedall_gpu_supported'']) \<and>
   snd (PCA_onedal_cpu_supported (fresh_PCA ''cov'', []) ''decomposition.PCA.transform'' [dense_X]) =
     (fresh_PCA ''cov'', [])"
  using predicates_frame [where self = fresh_KMeans and method_name = "''fit''" and X = dense_X
      and y = PyNone and sample_weight = PyNone and data = "[dense_X]"
      and st = "(fresh_PCA ''cov'', [])" and pca_method = "''decomposition.PCA.transform''"]
    predicates_frame [where self = fresh_KMeans and method_name = "''fit''" and X = PyNone
      and y = PyNone and sample_weight = PyNone and data = "[dense_X]"
      and st = "(fresh_PCA ''cov'', [])" and pca_method = "''decomposition.PCA.transform''"]
    predicates_frame [where self = fresh_KMeans and method_name = "''predict''" and X = dense_X
      and y = PyNone and sample_weight = PyNone and data = "[dense_X]"
      and st = "(fresh_PCA ''cov'', [])" and pca_method = "''decomposition.PCA.transform''"]
  by (simp add: dense_X_def fresh_KMeans_def)

text \<open>
  The claim as it was stated fails on a freshly constructed estimator: after the fit
  predicate has run, the estimator has the attribute \<^verbatim>\<open>_algorithm\<close>, which it did not
  have before.
\<close>

theorem fit_predicate_changes_estimator:
  "snd (KMeans_onedal_fit_supported fresh_KMeans ''fit'' dense_X PyNone PyNone) \<noteq> fresh_KMeans"
  by (simp add: fit_supported_result dense_X_def fresh_KMeans_def)

section \<open>Determinism of the predicates\<close>

text \<open>
  The answer of a KMeans predicate is a function of the class name, \<^verbatim>\<open>n_clusters\<close>,
  \<^verbatim>\<open>init\<close>, \<^verbatim>\<open>algorithm\<close>, \<^verbatim>\<open>cluster_centers_\<close> and the arguments; the attribute
  \<^verbatim>\<open>_algorithm\<close> that the fit predicate writes is never read back.
\<close>

lemma fit_supported_agree:
  assumes "class_name self1 = class_name self2" "n_clusters self1 = n_clusters self2"
    "init self1 = init self2" "algorithm self1 = algorithm self2"
  shows "fst (KMeans_onedal_fit_supported self1 method_name X y sample_weight) =
         fst (KMeans_onedal_fit_supported self2 method_name X y sample_weight)"
proof (cases "num_samples X")
  case (Inl err)
  then show ?thesis by (simp add: KMeans_onedal_fit_supported_def Let_def)
next
  case (Inr n)
  show ?thesis
  proof (cases "method_name = ''fit''")
    case True
    with Inr assms show ?thesis by (simp add: fit_supported_result)
  next
    case False
    then show ?thesis by (simp add: KMeans_onedal_fit_supported_def)
  qed
qed

lemma predict_supported_agree:
  assumes "class_name self1 = class_name self2" "algorithm self1 = algorithm self2"
    "cluster_centers self1 = cluster_centers self2"
  shows "fst (KMeans_onedal_predict_supported self1 method_name X) =
         fst (KMeans_onedal_predict_supported self2 method_name X)"
proof (cases "method_name = ''predict''")
  case True
  with assms show ?thesis by (simp add: predict_supported_result)
next
  case False
  then show ?thesis by (simp add: KMeans_onedal_predict_supported_def)
qed

lemma supported_agree:
  assumes "class_name self1 = class_name self2" "n_clusters self1 = n_clusters self2"
    "init self1 = init self2" "algorithm self1 = algorithm self2"
    "cluster_centers self1 = cluster_centers self2"
  shows "fst (KMeans_onedal_supported self1 method_name data) =
         fst (KMeans_onedal_supported self2 method_name data)"
proof -
  have fit: "fst (KMeans_onedal_fit_supported self1 m X y w) =
         fst (KMeans_onedal_fit_supported self2 m X y w)" for m X y w
    by (rule fit_supported_agree [OF assms(1-4)])
  have predict: "fst (KMeans_onedal_predict_supported self1 m X) =
         fst (KMeans_onedal_predict_supported self2 m X)" for m X
    by (rule predict_supported_agree [OF assms(1,4,5)])
  show ?thesis
  proof (cases "method_name = ''fit''")
    case True
    then show ?thesis
      by (cases "bind_fit_data data") (auto simp: KMeans_onedal_supported_def fit)
  next
    case not_fit: False
    show ?thesis
    proof (cases "method_name = ''predict''")
      case True
      then show ?thesis
        by (cases "bind_predict_data data") (auto simp: KMeans_onedal_supported_def predict)
    next
      case False
      with not_fit show ?thesis by (simp add: supported_unknown assms(1))
    qed
  qed
qed

lemma supported_again:
  "fst (KMeans_onedal_supported (snd (KMeans_onedal_supported self method_name data))
          method_name data) =
   fst (KMeans_onedal_supported self method_name data)"
proof -
  from supported_state [of self method_name data]
  show ?thesis
  proof
    assume "snd (KMeans_onedal_supported self method_name data) = self"
    then show ?thesis by simp
  next
    assume changed: "snd (KMeans_onedal_supported self method_name data) =
      self\<lparr>p_algorithm := Some (algorithm self)\<rparr>"
    have "fst (KMeans_onedal_supported (self\<lparr>p_algorithm := Some (algorithm self)\<rparr>)
            method_name data) = fst (KMeans_onedal_supported self method_name data)"
      by (rule supported_agree) simp_all
    with changed show ?thesis by simp
  qed
qed

text \<open>
  Claim C5. Two invocations of a capability predicate on estimators with the same
  configuration and fitted state and on the same input return the same decision, whatever
  the other attributes of the estimators hold and whatever has been printed before; this
  includes a second invocation on the very estimator the first one left behind. For PCA
  the decision depends only on \<^verbatim>\<open>_fit_svd_solver\<close> and on whether \<^verbatim>\<open>_onedal_estimator\<close>
  exists.
\<close>

theorem predicates_deterministic:
  "(class_name self1 = class_name self2 \<and> n_clusters self1 = n_clusters self2 \<and>
    init self1 = init self2 \<and> algorithm self1 = algorithm self2 \<and>
    cluster_centers self1 = cluster_centers self2 \<longrightarrow>
      fst (KMeans_onedal_supported self1 method_name data) =
        fst (KMeans_onedal_supported self2 method_name data) \<and>
      fst (KMeans_onedal_gpu_supported self1 method_name data) =
        fst (KMeans_onedal_gpu_supported self2 method_name data) \<and>
      fst (KMeans_onedal_cpu_supported self1 method_name data) =
        fst (KMeans_onedal_cpu_supported self2 method_name data)) \<and>
   fst (KMeans_onedal_supported (snd (KMeans_onedal_supported self1 method_name data))
          method_name data) =
     fst (KMeans_onedal_supported self1 method_name data) \<and>
   (class_name (fst st1) = class_name (fst st2) \<and>
    p_fit_svd_solver (fst st1) = p_fit_svd_solver (fst st2) \<and>
    (p_onedal_estimator (fst st1) = None \<longleftrightarrow> p_onedal_estimator (fst st2) = None) \<longrightarrow>
      fst (PCA_onedal_gpu_supported st1 pca_method data1) =
        fst (PCA_onedal_gpu_supported st2 pca_method data2) \<and>
      fst (PCA_onedal_cpu_supported st1 pca_method data1) =
        fst (PCA_onedal_cpu_supported st2 pca_method data2))"
proof -
  have pca: "fst (PCA_onedal_gpu_supported st1 pca_method data1) =
        fst (PCA_onedal_gpu_supported st2 pca_method data2) \<and>
      fst (PCA_onedal_cpu_supported st1 pca_method data1) =
        fst (PCA_onedal_cpu_supported st2 pca_method data2)"
    if same: "class_name (fst st1) = class_name (fst st2)"
      "p_fit_svd_solver (fst st1) = p_fit_svd_solver (fst st2)"
      "p_onedal_estimator (fst st1) = None \<longleftrightarrow> p_onedal_estimator (fst st2) = None"
  proof -
    have "fst (PCA_onedal_gpu_supported st1 pca_method data1) =
        fst (PCA_onedal_gpu_supported st2 pca_method data2)"
      unfolding PCA_onedal_gpu_supported_def print_def Let_def fst_conv same(1,2)
      using same(3) by (simp split: option.splits)
    moreover have "fst (PCA_onedal_cpu_supported st1 pca_method data1) =
        fst (PCA_onedal_cpu_supported st2 pca_method data2)"
      unfolding PCA_onedal_cpu_supported_def Let_def same(1,2)
      using same(3) by (simp split: option.splits)
    ultimately show ?thesis by blast
  qed
  have kmeans: "fst (KMeans_onedal_supported self1 method_name data) =
        fst (KMeans_onedal_supported self2 method_name data)"
    if "class_name self1 = class_name self2" "n_clusters self1 = n_clusters self2"
      "init self1 = init self2" "algorithm self1 = algorithm self2"
      "cluster_centers self1 = cluster_centers self2"
    using that by (rule supported_agree)
  show ?thesis
    unfolding KMeans_onedal_gpu_supported_def KMeans_onedal_cpu_supported_def
  proof (intro conjI impI; (elim conjE)?)
    show "fst (KMeans_onedal_supported (snd (KMeans_onedal_supported self1 method_name data))
            method_name data) = fst (KMeans_onedal_supported self1 method_name data)"
      by (rule supported_again)
  qed (erule (4) kmeans, erule (4) kmeans, erule (4) kmeans,
       erule (2) pca [THEN conjunct1], erule (2) pca [THEN conjunct2])
qed

theorem predicates_deterministic_witness:
  "fst (KMeans_onedal_supported fresh_KMeans ''fit'' [dense_X]) =
     fst (KMeans_onedal_supported (fresh_KMeans\<lparr>p_algorithm := Some ''elkan''\<rparr>) ''fit'' [dense_X]) \<and>
   fst (KMeans_onedal_supported (snd (KMeans_onedal_supported fresh_KMeans ''fit'' [dense_X]))
          ''fit'' [dense_X]) =
     fst (KMeans_onedal_supported fresh_KMeans ''fit'' [dense_X]) \<and>
   fst (PCA_onedal_cpu_supported (fresh_PCA ''cov'', []) ''decomposition.PCA.transform'' [dense_X]) =
     fst (PCA_onedal_cpu_supported (fresh_PCA ''full'', [''earlier output''])
            ''decomposition.PCA.transform'' [sparse_X])"
  using predicates_deterministic [where ?self1.0 = fresh_KMeans
      and ?self2.0 = "fresh_KMeans\<lparr>p_algorithm := Some ''elkan''\<rparr>"
      and method_name = "''fit''" and data = "[dense_X]"
      and ?st1.0 = "(fresh_PCA ''cov'', [])" and ?st2.0 = "(fresh_PCA ''full'', [''earlier output''])"
      and pca_method = "''decomposition.PCA.transform''"
      and ?data1.0 = "[dense_X]" and ?data2.0 = "[sparse_X]"]
  by (simp add: fresh_PCA_def)

section \<open>What the predicates return\<close>

text \<open>
  Claim C7, as amended. For its two method names the KMeans predicate returns a conditions
  chain: a boolean verdict together with the ordered list of (condition description,
  passed) pairs, five pairs for "fit" and three for "predict", the verdict being their
  conjunction. The PCA predicates \<^verbatim>\<open>_onedal_gpu_supported\<close> and
  \<^verbatim>\<open>_onedal_cpu_supported\<close> return a bare boolean for their two method names.
\<close>

theorem predicate_return_values:
  "(num_samples X = Inr sample_count \<longrightarrow>
      fst (KMeans_onedal_supported self ''fit'' [X, y, sample_weight]) =
        Inr (Chain \<lparr>scope_name = ''sklearn.cluster.'' @ class_name self @ ''.fit'',
          patching_is_enabled =
            (algorithm self \<in> {''auto'', ''full'', ''lloyd''} \<and> \<not> issparse (init self) \<and>
             n_clusters self < int sample_count \<and> sample_weight = PyNone \<and> \<not> issparse X),
          conditions =
            [(''Only lloyd algorithm is supported.'',
                algorithm self \<in> {''auto'', ''full'', ''lloyd''}),
             (''Sparse init values are not supported'', \<not> issparse (init self)),
             (''n_clusters is smaller than number of samples'',
                n_clusters self < int sample_count),
             (''Sample weight is not None.'', sample_weight = PyNone),
             (''Sparse input is not supported.'', \<not> issparse X)]\<rparr>)) \<and>
   fst (KMeans_onedal_supported self ''predict'' [X]) =
     Inr (Chain \<lparr>scope_name = ''sklearn.cluster.'' @ class_name self @ ''.predict'',
        patching_is_enabled =
          (algorithm self \<in> {''auto'', ''full'', ''lloyd''} \<and>
           \<not> issparse (cluster_centers self) \<and> \<not> issparse X),
        conditions =
          [(''Only lloyd algorithm is supported.'',
              algorithm self \<in> {''auto'', ''full'', ''lloyd''}),
           (''Sparse clusters is not supported.'', \<not> issparse (cluster_centers self)),
           (''Sparse input is not supported.'', \<not> issparse X)]\<rparr>) \<and>
   (p_fit_svd_solver (fst st) = Some solver \<longrightarrow>
      fst (PCA_onedal_gpu_supported st ''decomposition.PCA.fit'' data) =
        Inr (PyBool (solver = ''cov'')) \<and>
      fst (PCA_onedal_cpu_supported st ''decomposition.PCA.fit'' data) =
        Inr (PyBool (solver \<in> {''cov'', ''full''}))) \<and>
   fst (PCA_onedal_gpu_supported st ''decomposition.PCA.transform'' data) =
     Inr (PyBool (p_onedal_estimator (fst st) \<noteq> None)) \<and>
   fst (PCA_onedal_cpu_supported st ''decomposition.PCA.transform'' data) =
     Inr (PyBool (p_onedal_estimator (fst st) \<noteq> None))"
  by (simp add: supported_fit supported_predict fit_supported_result predict_supported_result
      PCA_onedal_gpu_supported_def PCA_onedal_cpu_supported_def print_def Let_def)

theorem predicate_return_values_witness:
  "num_samples sparse_X = Inr 40 \<and>
   fst (KMeans_onedal_supported fresh_KMeans ''fit'' [sparse_X, PyNone, PyNone]) =
     Inr (Chain \<lparr>scope_name = ''sklearn.cluster.KMeans.fit'', patching_is_enabled = False,
       conditions =
         [(''Only lloyd algorithm is supported.'', True),
          (''Sparse init values are not supported'', True),
          (''n_clusters is smaller than number of samples'', True),
          (''Sample weight is not None.'', True),
          (''Sparse input is not supported.'', False)]\<rparr>) \<and>
   p_fit_svd_solver (fst (fresh_PCA ''cov''\<lparr>p_fit_svd_solver := Some ''cov''\<rparr>, [])) = Some ''cov'' \<and>
   fst (PCA_onedal_gpu_supported (fresh_PCA ''cov''\<lparr>p_fit_svd_solver := Some ''cov''\<rparr>, [])
          ''decomposition.PCA.fit'' [dense_X]) = Inr (PyBool True)"
  using predicate_return_values [where X = sparse_X and sample_count = 40 and self = fresh_KMeans
      and y = PyNone and sample_weight = PyNone
      and st = "(fresh_PCA ''cov''\<lparr>p_fit_svd_solver := Some ''cov''\<rparr>, [])"
      and solver = "''cov''" and data = "[dense_X]"]
  by (simp add: sparse_X_def fresh_KMeans_def)

text \<open>
  The claim as it was stated fails for PCA: on an estimator whose solver has been resolved
  to "full", the host predicate returns the boolean \<^verbatim>\<open>True\<close> and no list of conditions.
\<close>

theorem PCA_cpu_predicate_returns_bool:
  "fst (PCA_onedal_cpu_supported (fresh_PCA ''full''\<lparr>p_fit_svd_solver := Some ''full''\<rparr>, [])
          ''decomposition.PCA.fit'' [dense_X]) = Inr (PyBool True)"
  by (simp add: PCA_onedal_cpu_supported_def fresh_PCA_def)

section \<open>Accelerator device and host for PCA\<close>

text \<open>
  Claim C8. Whenever the PCA predicate for the accelerator device returns \<^verbatim>\<open>True\<close>, the
  method name is one of the two recognized ones and the PCA predicate for the host returns
  \<^verbatim>\<open>True\<close> as well.
\<close>

theorem PCA_gpu_implies_cpu:
  "fst (PCA_onedal_gpu_supported st method_name data) = Inr (PyBool True) \<longrightarrow>
     method_name \<in> {''decomposition.PCA.fit'', ''decomposition.PCA.transform''} \<and>
     fst (PCA_onedal_cpu_supported st method_name data) = Inr (PyBool True)"
  by (auto simp: PCA_onedal_gpu_supported_def PCA_onedal_cpu_supported_def print_def Let_def
      split: option.splits if_splits)

theorem PCA_gpu_implies_cpu_witness:
  "fst (PCA_onedal_gpu_supported (fresh_PCA ''cov''\<lparr>p_fit_svd_solver := Some ''cov''\<rparr>, [])
          ''decomposition.PCA.fit'' [dense_X]) = Inr (PyBool True) \<and>
   fst (PCA_onedal_cpu_supported (fresh_PCA ''cov''\<lparr>p_fit_svd_solver := Some ''cov''\<rparr>, [])
          ''decomposition.PCA.fit'' [dense_X]) = Inr (PyBool True)"
proof -
  have gpu: "fst (PCA_onedal_gpu_supported (fresh_PCA ''cov''\<lparr>p_fit_svd_solver := Some ''cov''\<rparr>, [])
          ''decomposition.PCA.fit'' [dense_X]) = Inr (PyBool True)"
    by (simp add: PCA_onedal_gpu_supported_def print_def fresh_PCA_def)
  with PCA_gpu_implies_cpu [of "(fresh_PCA ''cov''\<lparr>p_fit_svd_solver := Some ''cov''\<rparr>, [])"
      "''decomposition.PCA.fit''" "[dense_X]"]
  show ?thesis by blast
qed

section \<open>Dispatched calls\<close>

text \<open>
  What the dispatcher does with the predicates and the backend mappings of the four
  dispatched methods.
\<close>

lemma run_backend_present:
  "branches backend = Some f \<Longrightarrow>
   run_backend branches backend self args =
     \<lparr>result = fst (f self args), state = snd (f self args), executed = [backend]\<rparr>"
  by (simp add: run_backend_def split: prod.splits)

lemma run_backend_absent:
  "branches backend = None \<Longrightarrow>
   run_backend branches backend self args = raised (KeyError backend) self"
  by (simp add: run_backend_def)

lemma executed_run_backend:
  "executed (run_backend branches backend self args) =
     (if branches backend = None then [] else [backend])"
  by (auto simp: run_backend_def raised_def split: option.splits prod.splits)

lemma executed_try_backends:
  "executed (try_backends ps self method_name branches args) \<in> {[], [''onedal''], [''sklearn'']}"
proof (induction ps arbitrary: self)
  case Nil
  show ?case by (simp add: executed_run_backend)
next
  case (Cons supported rest)
  show ?case
  proof (cases "supported self method_name args")
    case (Pair r self')
    show ?thesis
    proof (cases r)
      case (Inl err)
      with Pair show ?thesis by (simp add: raised_def)
    next
      case (Inr status)
      with Pair Cons.IH [of self'] show ?thesis
        by (simp add: executed_run_backend)
    qed
  qed
qed

lemma try_backends_pass:
  "supported self method_name args = (Inr status, self') \<Longrightarrow> get_status status \<Longrightarrow>
   try_backends (supported # rest) self method_name branches args =
     run_backend branches ''onedal'' self' args"
  by simp

lemma try_backends_skip:
  "supported self method_name args = (Inr status, self') \<Longrightarrow> \<not> get_status status \<Longrightarrow>
   try_backends (supported # rest) self method_name branches args =
     try_backends rest self' method_name branches args"
  by simp

lemma KMeans_dispatch_fit:
  assumes "num_samples X = Inr sample_count"
  shows "dispatch gpu KMeans_onedal_gpu_supported KMeans_onedal_cpu_supported
           self ''fit'' branches [X, y, sample_weight] =
         run_backend branches
           (if algorithm self \<in> {''auto'', ''full'', ''lloyd''} \<and> \<not> issparse (init self) \<and>
               n_clusters self < int sample_count \<and> sample_weight = PyNone \<and> \<not> issparse X
            then ''onedal'' else ''sklearn'')
           (self\<lparr>p_algorithm := Some (algorithm self)\<rparr>) [X, y, sample_weight]"
  using assms
  by (cases gpu)
    (auto simp: dispatch_def KMeans_onedal_gpu_supported_def KMeans_onedal_cpu_supported_def
      supported_fit fit_supported_result)

lemma KMeans_dispatch_predict:
  "dispatch gpu KMeans_onedal_gpu_supported KMeans_onedal_cpu_supported
           self ''predict'' branches [X] =
         run_backend branches
           (if algorithm self \<in> {''auto'', ''full'', ''lloyd''} \<and>
               \<not> issparse (cluster_centers self) \<and> \<not> issparse X
            then ''onedal'' else ''sklearn'')
           self [X]"
  by (cases gpu)
    (auto simp: dispatch_def KMeans_onedal_gpu_supported_def KMeans_onedal_cpu_supported_def
      supported_predict predict_supported_result)

lemma PCA_dispatch_fit:
  assumes "p_fit_svd_solver (fst st) = Some solver" "solver \<in> {''cov'', ''full''}"
  shows "dispatch gpu PCA_onedal_gpu_supported PCA_onedal_cpu_supported
           st ''decomposition.PCA.fit'' branches args =
         run_backend branches ''onedal''
           (if gpu then (fst st, snd st @ [''call _onedall_gpu_supported'']) else st) args"
  using assms
  by (cases gpu)
    (auto simp: dispatch_def PCA_onedal_gpu_supported_def PCA_onedal_cpu_supported_def
      print_def Let_def)

lemma PCA_dispatch_transform:
  "dispatch gpu PCA_onedal_gpu_supported PCA_onedal_cpu_supported
           st ''decomposition.PCA.transform'' branches args =
         run_backend branches
           (if p_onedal_estimator (fst st) \<noteq> None then ''onedal'' else ''sklearn'')
           (if gpu then (fst st, snd st @ [''call _onedall_gpu_supported'']) else st) args"
  by (cases gpu)
    (auto simp: dispatch_def PCA_onedal_gpu_supported_def PCA_onedal_cpu_supported_def
      print_def Let_def)

lemma executed_dispatch:
  "executed (dispatch gpu gpu_supported cpu_supported self method_name branches args)
     \<in> {[], [''onedal''], [''sklearn'']}"
  unfolding dispatch_def by (rule executed_try_backends)

lemma KMeans_fit_run:
  assumes "KMeans_validate ext self X = (Inr u, self1)" "num_samples X = Inr sample_count"
  shows "executed (KMeans_fit ext self X y sample_weight) =
     (if algorithm self1 \<in> {''auto'', ''full'', ''lloyd''} \<and> \<not> issparse (init self1) \<and>
         n_clusters self1 < int sample_count \<and> sample_weight = PyNone \<and> \<not> issparse X
      then [''onedal''] else [''sklearn''])"
  using assms
  by (simp add: KMeans_fit_def KMeans_dispatch_fit executed_run_backend KMeans_fit_branches_def
      Let_def)

lemma KMeans_predict_run:
  assumes "KMeans_validate ext self X = (Inr u, self1)"
  shows "executed (KMeans_predict ext self X) =
     (if algorithm self1 \<in> {''auto'', ''full'', ''lloyd''} \<and>
         \<not> issparse (cluster_centers self1) \<and> \<not> issparse X
      then [''onedal''] else [''sklearn''])"
  using assms
  by (simp add: KMeans_predict_def KMeans_dispatch_predict executed_run_backend
      KMeans_predict_branches_def Let_def)

lemma PCA_fit_run:
  assumes "\<not> issparse X" "check_array ext X (copy (fst st)) = Inr Xa"
    "fit_svd_solver (fst st) Xa = Inr solver" "solver \<in> {''full'', ''cov''}"
  shows "PCA_fit_impl ext st X =
     run_backend (if solver = ''full'' then PCA_fit_full_branches ext else PCA_fit_cov_branches ext)
       ''onedal''
       ((fst st)\<lparr>p_fit_svd_solver := Some solver\<rparr>,
        if device_available ext then snd st @ [''call _onedall_gpu_supported''] else snd st)
       [PyArray Xa]"
  using assms
  by (auto simp: PCA_fit_impl_def Let_def PCA_dispatch_fit)

lemma PCA_transform_run:
  assumes "check_is_fitted ext st = Inr u" "check_array ext X (copy (fst st)) = Inr Xa"
  shows "PCA_transform ext st X =
     run_backend (PCA_transform_branches ext)
       (if p_onedal_estimator (fst st) \<noteq> None then ''onedal'' else ''sklearn'')
       (if device_available ext then (fst st, snd st @ [''call _onedall_gpu_supported'']) else st)
       [PyArray Xa]"
  using assms
  by (simp add: PCA_transform_def PCA_dispatch_transform)

text \<open>
  The rounding of the product decides the solver: on a 600 by 43 input, \<^verbatim>\<open>0.8 * 43\<close> is
  the same double as \<^verbatim>\<open>34.4\<close>, so 34.4 components resolve to "full" and 34 to
  "randomized".
\<close>

lemma round_double_examples:
  "round_double (8 / 10) = double_0_8"
  "round_double 43 = 43"
  "times_0_8 43 = Inr (4841369599423283 / 140737488355328)"
  "round_double (344 / 10) = 4841369599423283 / 140737488355328"
  "times_0_8 5 = Inr 4"
  by code_simp+

lemma resolve_auto_examples:
  "resolve_auto (NcNum (4841369599423283 / 140737488355328)) (Array False 600 43 float64) =
     Inr ''full''"
  "resolve_auto (NcNum 34) (Array False 600 43 float64) = Inr ''randomized''"
  "resolve_auto (NcNum 34) (Array False 400 43 float64) = Inr ''full''"
  "resolve_auto (NcStr ''mle'') (Array False 600 43 float64) = Inr ''full''"
  "resolve_auto NcNone (Array False 600 43 float64) = Inl (TypeError ''>='')"
  by code_simp+

lemma fit_status_verdict:
  assumes "fst (KMeans_onedal_supported self ''fit'' [X, y, sample_weight]) = Inr status"
  shows "\<exists>sample_count. num_samples X = Inr sample_count \<and>
     (get_status status \<longleftrightarrow>
        algorithm self \<in> {''auto'', ''full'', ''lloyd''} \<and> \<not> issparse (init self) \<and>
        n_clusters self < int sample_count \<and> sample_weight = PyNone \<and> \<not> issparse X)"
proof (cases "num_samples X")
  case (Inl err)
  with assms show ?thesis by (simp add: supported_fit fit_supported_failure)
next
  case (Inr sample_count)
  with assms have "status = Chain \<lparr>scope_name = ''sklearn.cluster.'' @ class_name self @ ''.fit'',
        patching_is_enabled =
          (algorithm self \<in> {''auto'', ''full'', ''lloyd''} \<and> \<not> issparse (init self) \<and>
           n_clusters self < int sample_count \<and> sample_weight = PyNone \<and> \<not> issparse X),
        conditions =
          [(''Only lloyd algorithm is supported.'', algorithm self \<in> {''auto'', ''full'', ''lloyd''}),
           (''Sparse init values are not supported'', \<not> issparse (init self)),
           (''n_clusters is smaller than number of samples'', n_clusters self < int sample_count),
           (''Sample weight is not None.'', sample_weight = PyNone),
           (''Sparse input is not supported.'', \<not> issparse X)]\<rparr>"
    by (simp add: supported_fit fit_supported_result)
  with Inr show ?thesis by simp
qed

lemma predict_status_verdict:
  assumes "fst (KMeans_onedal_supported self ''predict'' [X]) = Inr status"
  shows "get_status status \<longleftrightarrow>
        algorithm self \<in> {''auto'', ''full'', ''lloyd''} \<and> \<not> issparse (cluster_centers self) \<and>
        \<not> issparse X"
proof -
  from assms have "status = Chain \<lparr>scope_name = ''sklearn.cluster.'' @ class_name self @ ''.predict'',
        patching_is_enabled =
          (algorithm self \<in> {''auto'', ''full'', ''lloyd''} \<and> \<not> issparse (cluster_centers self) \<and>
           \<not> issparse X),
        conditions =
          [(''Only lloyd algorithm is supported.'', algorithm self \<in> {''auto'', ''full'', ''lloyd''}),
           (''Sparse clusters is not supported.'', \<not> issparse (cluster_centers self)),
           (''Sparse input is not supported.'', \<not> issparse X)]\<rparr>"
    by (simp add: supported_predict predict_supported_result)
  then show ?thesis by simp
qed

lemma KMeans_fit_raise:
  assumes "KMeans_validate ext self X = (Inr u, self1)" "num_samples X = Inl err"
  shows "KMeans_fit ext self X y sample_weight =
     \<lparr>result = Inl err, state = self1, executed = []\<rparr>"
  using assms
  by (cases "gpu_available ext")
    (simp_all add: KMeans_fit_def dispatch_def KMeans_onedal_gpu_supported_def
      KMeans_onedal_cpu_supported_def supported_fit fit_supported_failure raised_def Let_def)

lemma plain_validate:
  "KMeans_validate (plain_KMeans_externals gpu) self X = (Inr (), self)"
  by (simp add: KMeans_validate_def plain_KMeans_externals_def)

text \<open>
  Claim C6, as amended. A dispatched call never executes more than one backend. For
  \<^verbatim>\<open>KMeans.fit\<close>, \<^verbatim>\<open>KMeans.predict\<close> and \<^verbatim>\<open>PCA.transform\<close>, once the validation that
  precedes the dispatch has passed and the capability predicate has returned its answer:
  when the answer is true, the accelerated callable is executed exactly once and the
  reference callable not at all; when it is false, the reference callable is executed
  exactly once. For \<^verbatim>\<open>PCA._fit\<close> with the solver resolved to "full" or "cov" the host
  predicate answers true and the accelerated callable is executed exactly once. When the
  predicate raises instead of answering, as the fit predicate of KMeans does for an input
  of which \<^verbatim>\<open>_num_samples\<close> cannot tell the number of samples, neither backend is executed
  and the error reaches the caller.
\<close>

theorem one_backend_per_call:
  "executed (dispatch gpu gpu_supported cpu_supported self0 method_name branches args)
     \<in> {[], [''onedal''], [''sklearn'']} \<and>
   (KMeans_validate ext self X = (Inr u, self1) \<and>
    fst (KMeans_onedal_supported self1 ''fit'' [X, y, sample_weight]) = Inr fit_status \<longrightarrow>
      executed (KMeans_fit ext self X y sample_weight) =
        (if get_status fit_status then [''onedal''] else [''sklearn''])) \<and>
   (KMeans_validate ext self X = (Inr u, self1) \<and> num_samples X = Inl err \<longrightarrow>
      executed (KMeans_fit ext self X y sample_weight) = [] \<and>
      result (KMeans_fit ext self X y sample_weight) = Inl err) \<and>
   (KMeans_validate ext self X = (Inr u, self1) \<and>
    fst (KMeans_onedal_supported self1 ''predict'' [X]) = Inr predict_status \<longrightarrow>
      executed (KMeans_predict ext self X) =
        (if get_status predict_status then [''onedal''] else [''sklearn''])) \<and>
   (\<not> issparse X \<and> check_array pext X (copy (fst st)) = Inr Xa \<and>
    fit_svd_solver (fst st) Xa = Inr solver \<and> solver \<in> {''full'', ''cov''} \<longrightarrow>
      executed (PCA_fit_impl pext st X) = [''onedal'']) \<and>
   (check_is_fitted pext st = Inr v \<and> check_array pext X (copy (fst st)) = Inr Xa \<and>
    fst (PCA_onedal_cpu_supported st ''decomposition.PCA.transform'' [PyArray Xa]) =
      Inr transform_status \<longrightarrow>
      executed (PCA_transform pext st X) =
        (if get_status transform_status then [''onedal''] else [''sklearn'']))"
proof (intro conjI impI; (elim conjE)?)
  show "executed (dispatch gpu gpu_supported cpu_supported self0 method_name branches args)
     \<in> {[], [''onedal''], [''sklearn'']}"
    by (rule executed_dispatch)
next
  assume valid: "KMeans_validate ext self X = (Inr u, self1)"
    and status: "fst (KMeans_onedal_supported self1 ''fit'' [X, y, sample_weight]) = Inr fit_status"
  from fit_status_verdict [OF status] obtain sample_count
    where "num_samples X = Inr sample_count"
      and "get_status fit_status \<longleftrightarrow>
        algorithm self1 \<in> {''auto'', ''full'', ''lloyd''} \<and> \<not> issparse (init self1) \<and>
        n_clusters self1 < int sample_count \<and> sample_weight = PyNone \<and> \<not> issparse X"
    by blast
  with KMeans_fit_run [OF valid, of sample_count y sample_weight]
  show "executed (KMeans_fit ext self X y sample_weight) =
        (if get_status fit_status then [''onedal''] else [''sklearn''])"
    by simp
next
  assume "KMeans_validate ext self X = (Inr u, self1)" "num_samples X = Inl err"
  then have run: "KMeans_fit ext self X y sample_weight =
     \<lparr>result = Inl err, state = self1, executed = []\<rparr>"
    by (rule KMeans_fit_raise)
  show "executed (KMeans_fit ext self X y sample_weight) = []"
    unfolding run by simp
  show "result (KMeans_fit ext self X y sample_weight) = Inl err"
    unfolding run by simp
next
  assume valid: "KMeans_validate ext self X = (Inr u, self1)"
    and status: "fst (KMeans_onedal_supported self1 ''predict'' [X]) = Inr predict_status"
  from predict_status_verdict [OF status] KMeans_predict_run [OF valid]
  show "executed (KMeans_predict ext self X) =
        (if get_status predict_status then [''onedal''] else [''sklearn''])"
    by simp
next
  assume "\<not> issparse X" "check_array pext X (copy (fst st)) = Inr Xa"
    "fit_svd_solver (fst st) Xa = Inr solver" "solver \<in> {''full'', ''cov''}"
  then have "PCA_fit_impl pext st X =
     run_backend (if solver = ''full'' then PCA_fit_full_branches pext else PCA_fit_cov_branches pext)
       ''onedal''
       ((fst st)\<lparr>p_fit_svd_solver := Some solver\<rparr>,
        if device_available pext then snd st @ [''call _onedall_gpu_supported''] else snd st)
       [PyArray Xa]"
    by (rule PCA_fit_run)
  then show "executed (PCA_fit_impl pext st X) = [''onedal'']"
    by (simp add: executed_run_backend PCA_fit_full_branches_def PCA_fit_cov_branches_def)
next
  assume fitted: "check_is_fitted pext st = Inr v"
    and checked: "check_array pext X (copy (fst st)) = Inr Xa"
    and status: "fst (PCA_onedal_cpu_supported st ''decomposition.PCA.transform'' [PyArray Xa]) =
      Inr transform_status"
  from status have "get_status transform_status \<longleftrightarrow> p_onedal_estimator (fst st) \<noteq> None"
    by (auto simp: PCA_onedal_cpu_supported_def Let_def)
  with PCA_transform_run [OF fitted checked]
  show "executed (PCA_transform pext st X) =
        (if get_status transform_status then [''onedal''] else [''sklearn''])"
    by (simp add: executed_run_backend PCA_transform_branches_def)
qed

theorem one_backend_per_call_witness:
  "executed (KMeans_fit (plain_KMeans_externals False) fresh_KMeans dense_X PyNone PyNone) =
     [''onedal''] \<and>
   executed (KMeans_fit (plain_KMeans_externals True) fresh_KMeans sparse_X PyNone PyNone) =
     [''sklearn''] \<and>
   executed (KMeans_fit (plain_KMeans_externals True) fresh_KMeans (PyOpaque ''int'') PyNone PyNone) =
     [] \<and>
   executed (KMeans_predict (plain_KMeans_externals True) fresh_KMeans dense_X) = [''onedal''] \<and>
   executed (PCA_fit_impl (plain_PCA_externals True) (fresh_PCA ''auto'', []) dense_X) =
     [''onedal''] \<and>
   executed (PCA_transform (plain_PCA_externals False) (fitted_PCA ''full'' None, []) dense_X) =
     [''sklearn''] \<and>
   executed (PCA_transform (plain_PCA_externals True)
     (fitted_PCA ''full'' (Some (PyOpaque ''onedal.decomposition.PCA'')), []) dense_X) =
     [''onedal'']"
proof -
  let ?dense = "Array False 40 4 float64"
  let ?fresh = "(fresh_PCA ''auto'', []) :: unit PCA_state"
  let ?by_sklearn = "(fitted_PCA ''full'' None, []) :: unit PCA_state"
  let ?by_onedal =
    "(fitted_PCA ''full'' (Some (PyOpaque ''onedal.decomposition.PCA'')), []) :: unit PCA_state"
  have fit_dense: "fst (KMeans_onedal_supported fresh_KMeans ''fit'' [dense_X, PyNone, PyNone]) =
      Inr (projr (fst (KMeans_onedal_supported fresh_KMeans ''fit'' [dense_X, PyNone, PyNone])))"
    and dense_passes:
      "get_status (projr (fst (KMeans_onedal_supported fresh_KMeans ''fit'' [dense_X, PyNone, PyNone])))"
    by (simp_all add: supported_fit fit_supported_result dense_X_def fresh_KMeans_def)
  have fit_sparse: "fst (KMeans_onedal_supported fresh_KMeans ''fit'' [sparse_X, PyNone, PyNone]) =
      Inr (projr (fst (KMeans_onedal_supported fresh_KMeans ''fit'' [sparse_X, PyNone, PyNone])))"
    and sparse_fails:
      "\<not> get_status (projr (fst (KMeans_onedal_supported fresh_KMeans ''fit'' [sparse_X, PyNone, PyNone])))"
    by (simp_all add: supported_fit fit_supported_result sparse_X_def fresh_KMeans_def)
  have no_length: "num_samples (PyOpaque ''int'') = Inl (TypeError ''Expected sequence or array-like'')"
    by simp
  have predict_dense: "fst (KMeans_onedal_supported fresh_KMeans ''predict'' [dense_X]) =
      Inr (projr (fst (KMeans_onedal_supported fresh_KMeans ''predict'' [dense_X])))"
    and predict_passes:
      "get_status (projr (fst (KMeans_onedal_supported fresh_KMeans ''predict'' [dense_X])))"
    by (simp_all add: supported_predict predict_supported_result dense_X_def fresh_KMeans_def)
  have checked_fresh:
    "check_array (plain_PCA_externals True) dense_X (copy (fst ?fresh)) = Inr ?dense"
    by (simp add: plain_PCA_externals_def plain_check_array_def dense_X_def)
  have checked_sklearn:
    "check_array (plain_PCA_externals False) dense_X (copy (fst ?by_sklearn)) = Inr ?dense"
    by (simp add: plain_PCA_externals_def plain_check_array_def dense_X_def)
  have checked_onedal:
    "check_array (plain_PCA_externals True) dense_X (copy (fst ?by_onedal)) = Inr ?dense"
    by (simp add: plain_PCA_externals_def plain_check_array_def dense_X_def)
  have fitted_sklearn: "check_is_fitted (plain_PCA_externals False) ?by_sklearn = Inr ()"
    by (simp add: plain_PCA_externals_def plain_check_is_fitted_def fitted_PCA_def)
  have fitted_onedal: "check_is_fitted (plain_PCA_externals True) ?by_onedal = Inr ()"
    by (simp add: plain_PCA_externals_def plain_check_is_fitted_def fitted_PCA_def)
  have solver: "fit_svd_solver (fst ?fresh) ?dense = Inr ''full''"
    by (simp add: fit_svd_solver_def resolve_auto_def max_shape_def fresh_PCA_def)
  have transform_sklearn:
    "fst (PCA_onedal_cpu_supported ?by_sklearn ''decomposition.PCA.transform'' [PyArray ?dense]) =
      Inr (PyBool False)"
    by (simp add: PCA_onedal_cpu_supported_def fitted_PCA_def)
  have transform_onedal:
    "fst (PCA_onedal_cpu_supported ?by_onedal ''decomposition.PCA.transform'' [PyArray ?dense]) =
      Inr (PyBool True)"
    by (simp add: PCA_onedal_cpu_supported_def fitted_PCA_def)
  have dense: "\<not> issparse dense_X"
    by (simp add: dense_X_def)
  note fit_call = one_backend_per_call [THEN conjunct2, THEN conjunct1, rule_format]
  note fit_raise =
    one_backend_per_call [THEN conjunct2, THEN conjunct2, THEN conjunct1, rule_format]
  note predict_call =
    one_backend_per_call [THEN conjunct2, THEN conjunct2, THEN conjunct2, THEN conjunct1,
      rule_format]
  note pca_fit_call =
    one_backend_per_call [THEN conjunct2, THEN conjunct2, THEN conjunct2, THEN conjunct2,
      THEN conjunct1, rule_format]
  note transform_call =
    one_backend_per_call [THEN conjunct2, THEN conjunct2, THEN conjunct2, THEN conjunct2,
      THEN conjunct2, rule_format]
  have a: "executed (KMeans_fit (plain_KMeans_externals False) fresh_KMeans dense_X PyNone PyNone) =
     [''onedal'']"
    using fit_call [OF conjI [OF plain_validate fit_dense]] dense_passes by simp
  have b: "executed (KMeans_fit (plain_KMeans_externals True) fresh_KMeans sparse_X PyNone PyNone) =
     [''sklearn'']"
    using fit_call [OF conjI [OF plain_validate fit_sparse]] sparse_fails by simp
  have r: "executed (KMeans_fit (plain_KMeans_externals True) fresh_KMeans (PyOpaque ''int'')
      PyNone PyNone) = []"
    by (rule fit_raise [OF conjI [OF plain_validate no_length], THEN conjunct1])
  have c: "executed (KMeans_predict (plain_KMeans_externals True) fresh_KMeans dense_X) = [''onedal'']"
    using predict_call [OF conjI [OF plain_validate predict_dense]] predict_passes by simp
  have d: "executed (PCA_fit_impl (plain_PCA_externals True) ?fresh dense_X) = [''onedal'']"
    by (rule pca_fit_call [OF conjI [OF dense conjI [OF checked_fresh conjI [OF solver]]]]) simp
  have e: "executed (PCA_transform (plain_PCA_externals False) ?by_sklearn dense_X) = [''sklearn'']"
    using transform_call [OF conjI [OF fitted_sklearn conjI [OF checked_sklearn transform_sklearn]]]
    by simp
  have f: "executed (PCA_transform (plain_PCA_externals True) ?by_onedal dense_X) = [''onedal'']"
    using transform_call [OF conjI [OF fitted_onedal conjI [OF checked_onedal transform_onedal]]]
    by simp
  from a b r c d e f show ?thesis by blast
qed

text \<open>
  The claim as it was stated fails on a fit call whose input has neither a length nor a
  shape: the validation passes, the predicate raises while it counts the samples, and no
  backend is executed.
\<close>

theorem fit_executes_no_backend:
  "KMeans_fit (plain_KMeans_externals False) fresh_KMeans PyNone PyNone PyNone =
     \<lparr>result = Inl (TypeError ''Expected sequence or array-like''), state = fresh_KMeans,
      executed = []\<rparr>"
  by (rule KMeans_fit_raise [OF plain_validate]) simp

text \<open>
  Claim C2, as amended. Whenever the mapping handed to the dispatcher holds a reference
  callable and no accelerated backend's predicate passes, the reference callable is
  executed. The mappings of \<^verbatim>\<open>KMeans.fit\<close>, \<^verbatim>\<open>KMeans.predict\<close>, \<^verbatim>\<open>PCA.transform\<close> and
  of \<^verbatim>\<open>PCA._fit\<close> with the solver resolved to "full" hold a reference callable. The
  mapping of \<^verbatim>\<open>PCA._fit\<close> with \<^verbatim>\<open>svd_solver="cov"\<close> holds the accelerated callable only;
  on that path the predicate passes for every estimator, so the accelerated callable is
  executed and the reference is never looked up.
\<close>

theorem reference_fallback:
  "(branches ''sklearn'' = Some reference \<and>
    cpu_supported self0 method_name args = (Inr c, self2) \<and> \<not> get_status c \<longrightarrow>
      dispatch False gpu_supported cpu_supported self0 method_name branches args =
        \<lparr>result = fst (reference self2 args), state = snd (reference self2 args),
         executed = [''sklearn'']\<rparr>) \<and>
   (branches ''sklearn'' = Some reference \<and>
    gpu_supported self0 method_name args = (Inr g, self1) \<and> \<not> get_status g \<and>
    cpu_supported self1 method_name args = (Inr c, self2) \<and> \<not> get_status c \<longrightarrow>
      dispatch True gpu_supported cpu_supported self0 method_name branches args =
        \<lparr>result = fst (reference self2 args), state = snd (reference self2 args),
         executed = [''sklearn'']\<rparr>) \<and>
   KMeans_fit_branches ext ''sklearn'' = Some (sklearn_KMeans_fit ext) \<and>
   KMeans_predict_branches ext ''sklearn'' = Some (sklearn_KMeans_predict ext) \<and>
   PCA_fit_full_branches pext ''sklearn'' = Some (sklearn_PCA_fit_full pext) \<and>
   PCA_transform_branches pext ''sklearn'' = Some (sklearn_PCA_transform pext) \<and>
   dom (PCA_fit_cov_branches pext) = {''onedal''} \<and>
   (\<not> issparse X \<and> check_array pext X (copy (fst st)) = Inr Xa \<and> svd_solver (fst st) = ''cov'' \<longrightarrow>
      PCA_fit_impl pext st X =
        run_backend (PCA_fit_cov_branches pext) ''onedal''
          ((fst st)\<lparr>p_fit_svd_solver := Some ''cov''\<rparr>,
           if device_available pext then snd st @ [''call _onedall_gpu_supported''] else snd st)
          [PyArray Xa] \<and>
      executed (PCA_fit_impl pext st X) = [''onedal''])"
proof (intro conjI impI; (elim conjE)?)
  assume "branches ''sklearn'' = Some reference"
    "cpu_supported self0 method_name args = (Inr c, self2)" "\<not> get_status c"
  then show "dispatch False gpu_supported cpu_supported self0 method_name branches args =
        \<lparr>result = fst (reference self2 args), state = snd (reference self2 args),
         executed = [''sklearn'']\<rparr>"
    by (simp add: dispatch_def run_backend_present)
next
  assume "branches ''sklearn'' = Some reference"
    "gpu_supported self0 method_name args = (Inr g, self1)" "\<not> get_status g"
    "cpu_supported self1 method_name args = (Inr c, self2)" "\<not> get_status c"
  then show "dispatch True gpu_supported cpu_supported self0 method_name branches args =
        \<lparr>result = fst (reference self2 args), state = snd (reference self2 args),
         executed = [''sklearn'']\<rparr>"
    by (simp add: dispatch_def run_backend_present)
next
  assume hyps: "\<not> issparse X" "check_array pext X (copy (fst st)) = Inr Xa"
    "svd_solver (fst st) = ''cov''"
  then have "fit_svd_solver (fst st) Xa = Inr ''cov''"
    by (simp add: fit_svd_solver_def)
  with hyps PCA_fit_run [of X pext st Xa "''cov''"]
  show run: "PCA_fit_impl pext st X =
        run_backend (PCA_fit_cov_branches pext) ''onedal''
          ((fst st)\<lparr>p_fit_svd_solver := Some ''cov''\<rparr>,
           if device_available pext then snd st @ [''call _onedall_gpu_supported''] else snd st)
          [PyArray Xa]"
    by simp
  show "executed (PCA_fit_impl pext st X) = [''onedal'']"
    unfolding run by (simp add: executed_run_backend PCA_fit_cov_branches_def)
qed (simp_all add: KMeans_fit_branches_def KMeans_predict_branches_def PCA_fit_full_branches_def
    PCA_transform_branches_def PCA_fit_cov_branches_def)

theorem reference_fallback_witness:
  "dispatch False KMeans_onedal_gpu_supported KMeans_onedal_cpu_supported fresh_KMeans ''fit''
     (KMeans_fit_branches (plain_KMeans_externals False)) [sparse_X] =
     \<lparr>result = Inr (PyStr ''sklearn''), state = fresh_KMeans\<lparr>p_algorithm := Some ''lloyd''\<rparr>,
      executed = [''sklearn'']\<rparr> \<and>
   dispatch True PCA_onedal_gpu_supported PCA_onedal_cpu_supported (fresh_PCA ''full'', [])
     ''decomposition.PCA.transform'' (PCA_transform_branches (plain_PCA_externals True)) [dense_X] =
     \<lparr>result = Inr (PyStr ''sklearn''),
      state = (fresh_PCA ''full'', [''call _onedall_gpu_supported'']),
      executed = [''sklearn'']\<rparr> \<and>
   executed (PCA_fit_impl (plain_PCA_externals False) (fresh_PCA ''cov'', []) dense_X) = [''onedal'']"
proof -
  let ?changed = "fresh_KMeans\<lparr>p_algorithm := Some ''lloyd''\<rparr>"
  let ?chain = "\<lparr>scope_name = ''sklearn.cluster.KMeans.fit'', patching_is_enabled = False,
       conditions =
         [(''Only lloyd algorithm is supported.'', True),
          (''Sparse init values are not supported'', True),
          (''n_clusters is smaller than number of samples'', True),
          (''Sample weight is not None.'', True),
          (''Sparse input is not supported.'', False)]\<rparr>"
  let ?pca = "(fresh_PCA ''full'', []) :: unit PCA_state"
  let ?printed = "(fresh_PCA ''full'', [''call _onedall_gpu_supported'']) :: unit PCA_state"
  have cpu: "KMeans_onedal_cpu_supported fresh_KMeans ''fit'' [sparse_X] = (Inr (Chain ?chain), ?changed)"
    by (simp add: KMeans_onedal_cpu_supported_def KMeans_onedal_supported_def fit_supported_result
        sparse_X_def fresh_KMeans_def)
  have branch: "KMeans_fit_branches (plain_KMeans_externals False) ''sklearn'' =
      Some (named_backend ''sklearn'')"
    by (simp add: KMeans_fit_branches_def plain_KMeans_externals_def)
  have a: "dispatch False KMeans_onedal_gpu_supported KMeans_onedal_cpu_supported fresh_KMeans ''fit''
     (KMeans_fit_branches (plain_KMeans_externals False)) [sparse_X] =
     \<lparr>result = Inr (PyStr ''sklearn''), state = ?changed, executed = [''sklearn'']\<rparr>"
    using reference_fallback [where branches = "KMeans_fit_branches (plain_KMeans_externals False)"
        and reference = "named_backend ''sklearn''" and cpu_supported = KMeans_onedal_cpu_supported
        and gpu_supported = KMeans_onedal_gpu_supported and ?self0.0 = fresh_KMeans
        and method_name = "''fit''" and args = "[sparse_X]" and c = "Chain ?chain"
        and ?self2.0 = ?changed, THEN conjunct1, rule_format, OF conjI [OF branch conjI [OF cpu]]]
    by (simp add: named_backend_def)
  have gpu_pca: "PCA_onedal_gpu_supported ?pca ''decomposition.PCA.transform'' [dense_X] =
      (Inr (PyBool False), ?printed)"
    by (simp add: PCA_onedal_gpu_supported_def print_def fresh_PCA_def)
  have cpu_pca: "PCA_onedal_cpu_supported ?printed ''decomposition.PCA.transform'' [dense_X] =
      (Inr (PyBool False), ?printed)"
    by (simp add: PCA_onedal_cpu_supported_def fresh_PCA_def)
  have branch_pca: "PCA_transform_branches (plain_PCA_externals True) ''sklearn'' =
      Some (named_backend ''sklearn'')"
    by (simp add: PCA_transform_branches_def plain_PCA_externals_def)
  have b: "dispatch True PCA_onedal_gpu_supported PCA_onedal_cpu_supported ?pca
     ''decomposition.PCA.transform'' (PCA_transform_branches (plain_PCA_externals True)) [dense_X] =
     \<lparr>result = Inr (PyStr ''sklearn''), state = ?printed, executed = [''sklearn'']\<rparr>"
    using reference_fallback [where branches = "PCA_transform_branches (plain_PCA_externals True)"
        and reference = "named_backend ''sklearn''" and cpu_supported = PCA_onedal_cpu_supported
        and gpu_supported = PCA_onedal_gpu_supported and ?self0.0 = ?pca
        and method_name = "''decomposition.PCA.transform''" and args = "[dense_X]"
        and g = "PyBool False" and c = "PyBool False" and ?self1.0 = ?printed
        and ?self2.0 = ?printed, THEN conjunct2, THEN conjunct1, rule_format,
        OF conjI [OF branch_pca conjI [OF gpu_pca conjI [OF _ conjI [OF cpu_pca]]]]]
    by (simp add: named_backend_def)
  have checked: "check_array (plain_PCA_externals False) dense_X (copy (fst (fresh_PCA ''cov'', []))) =
      Inr (Array False 40 4 float64)"
    by (simp add: plain_PCA_externals_def plain_check_array_def dense_X_def)
  have dense: "\<not> issparse dense_X" by (simp add: dense_X_def)
  have cov: "svd_solver (fst (fresh_PCA ''cov'', [])) = ''cov''" by (simp add: fresh_PCA_def)
  note cov_path =
    reference_fallback [THEN conjunct2, THEN conjunct2, THEN conjunct2, THEN conjunct2,
      THEN conjunct2, THEN conjunct2, THEN conjunct2, rule_format]
  have c: "executed (PCA_fit_impl (plain_PCA_externals False) (fresh_PCA ''cov'', []) dense_X) =
      [''onedal'']"
    by (rule cov_path [OF conjI [OF dense conjI [OF checked cov]], THEN conjunct2])
  from a b c show ?thesis by blast
qed

text \<open>
  The claim as it was stated fails on the "cov" path: the mapping that \<^verbatim>\<open>_fit\<close> hands to
  the dispatcher there has no entry for the reference backend.
\<close>

theorem cov_branches_lack_reference:
  "PCA_fit_impl (plain_PCA_externals False) (fresh_PCA ''cov'', []) dense_X =
     run_backend (PCA_fit_cov_branches (plain_PCA_externals False)) ''onedal''
       (fresh_PCA ''cov''\<lparr>p_fit_svd_solver := Some ''cov''\<rparr>, [])
       [PyArray (Array False 40 4 float64)] \<and>
   PCA_fit_cov_branches (plain_PCA_externals False) ''sklearn'' = None"
proof -
  have "check_array (plain_PCA_externals False) dense_X (copy (fst (fresh_PCA ''cov'', []))) =
      Inr (Array False 40 4 float64)"
    by (simp add: plain_PCA_externals_def plain_check_array_def dense_X_def)
  moreover have "\<not> issparse dense_X" by (simp add: dense_X_def)
  moreover have "fit_svd_solver (fst (fresh_PCA ''cov'', [])) (Array False 40 4 float64) = Inr ''cov''"
    by (simp add: fit_svd_solver_def fresh_PCA_def)
  ultimately have "PCA_fit_impl (plain_PCA_externals False) (fresh_PCA ''cov'', []) dense_X =
     run_backend (PCA_fit_cov_branches (plain_PCA_externals False)) ''onedal''
       (fresh_PCA ''cov''\<lparr>p_fit_svd_solver := Some ''cov''\<rparr>, [])
       [PyArray (Array False 40 4 float64)]"
    using PCA_fit_run [of dense_X "plain_PCA_externals False" "(fresh_PCA ''cov'', [])"
        "Array False 40 4 float64" "''cov''"]
    by (simp add: plain_PCA_externals_def)
  then show ?thesis by (simp add: PCA_fit_cov_branches_def)
qed

section \<open>The scipy requirement\<close>

lemma parse_version_thresholds:
  "parse_version ''1.2'' = [1, 2]" "parse_version ''1.1'' = [1, 1]"
  "parse_version ''1.0'' = [1, 0]" "parse_version ''0.24'' = [0, 24]"
  "parse_version ''1.9'' = [1, 9]" "parse_version ''1.8'' = [1, 8]"
  "parse_version ''1.7'' = [1, 7]" "parse_version ''1.6'' = [1, 6]"
  by (simp_all add: parse_version_def nat_of_digits_def digit_val_def)

lemma version_le_zero: "version_le xs [] \<Longrightarrow> version_le xs zs"
  by (induction xs zs rule: version_le.induct) auto

lemma version_le_below_zero: "version_le xs ys \<Longrightarrow> version_le ys [] \<Longrightarrow> version_le xs []"
  by (induction xs ys rule: version_le.induct) auto

lemma version_le_trans: "version_le xs ys \<Longrightarrow> version_le ys zs \<Longrightarrow> version_le xs zs"
proof (induction xs ys arbitrary: zs rule: version_le.induct)
  case (1 ys)
  show ?case by simp
next
  case (2 x xs)
  then show ?case by (simp add: version_le_zero)
next
  case (3 x xs y ys)
  show ?case
  proof (cases zs)
    case Nil
    with "3.prems" show ?thesis using version_le_below_zero [of "x # xs" "y # ys"] by simp
  next
    case (Cons z zs')
    with "3.prems" "3.IH" [of zs'] show ?thesis by auto
  qed
qed

lemma version_le_total: "version_le xs ys \<or> version_le ys xs"
  by (induction xs ys rule: version_le.induct) (auto simp: version_le_zero)

lemma scipy_pins:
  "scipy_pin ''scipy==1.9'' = Some [1, 9]" "scipy_pin ''scipy==1.8'' = Some [1, 8]"
  "scipy_pin ''scipy==1.7'' = Some [1, 7]" "scipy_pin ''scipy==1.6'' = Some [1, 6]"
  "scipy_pin ''scipy'' = None"
  by (simp_all add: scipy_pin_def parse_version_thresholds)

lemma script_output:
  "get_compatible_scipy_version v =
     (if version_le [1, 2] v then [''scipy==1.9'']
      else if version_le [1, 1] v then [''scipy==1.8'']
      else if version_le [1, 0] v then [''scipy==1.7'']
      else if version_le [0, 24] v then [''scipy==1.6'']
      else [''scipy''])"
  by (simp only: get_compatible_scipy_version_def sklearn_check_version_def
      parse_version_thresholds)

lemma script_pin:
  "scipy_pin (hd (get_compatible_scipy_version v)) =
     (if version_le [1, 2] v then Some [1, 9]
      else if version_le [1, 1] v then Some [1, 8]
      else if version_le [1, 0] v then Some [1, 7]
      else if version_le [0, 24] v then Some [1, 6]
      else None)"
  unfolding script_output by (simp only: if_distrib [of hd] if_distrib [of scipy_pin] list.sel scipy_pins)

lemma script_monotone:
  assumes "version_le v w"
  shows "pin_le (scipy_pin (hd (get_compatible_scipy_version v)))
                (scipy_pin (hd (get_compatible_scipy_version w)))"
proof -
  have up: "version_le t w" if "version_le t v" for t
    using that assms by (rule version_le_trans)
  show ?thesis
    unfolding script_pin
    using up [of "[1, 2]"] up [of "[1, 1]"] up [of "[1, 0]"] up [of "[0, 24]"]
    by (cases "version_le [1, 2] v"; cases "version_le [1, 1] v"; cases "version_le [1, 0] v";
        cases "version_le [0, 24] v"; cases "version_le [1, 2] w"; cases "version_le [1, 1] w";
        cases "version_le [1, 0] w"; cases "version_le [0, 24] w") simp_all
qed

text \<open>
  Claim C10. The script prints exactly one requirement line, chosen by the first threshold,
  in the order 1.2, 1.1, 1.0, 0.24, that the installed scikit-learn release reaches:
  \<^verbatim>\<open>scipy==1.9\<close>, \<^verbatim>\<open>scipy==1.8\<close>, \<^verbatim>\<open>scipy==1.7\<close>, \<^verbatim>\<open>scipy==1.6\<close>, and the unpinned
  \<^verbatim>\<open>scipy\<close> when it reaches none. The pin never decreases when the scikit-learn release
  increases.
\<close>

theorem scipy_requirement:
  "(\<exists>line. get_compatible_scipy_version v = [line]) \<and>
   get_compatible_scipy_version v =
     (if sklearn_check_version v ''1.2'' then [''scipy==1.9'']
      else if sklearn_check_version v ''1.1'' then [''scipy==1.8'']
      else if sklearn_check_version v ''1.0'' then [''scipy==1.7'']
      else if sklearn_check_version v ''0.24'' then [''scipy==1.6'']
      else [''scipy'']) \<and>
   (sklearn_check_version v ''1.2'' \<longleftrightarrow> version_le [1, 2] v) \<and>
   (sklearn_check_version v ''1.1'' \<longleftrightarrow> version_le [1, 1] v) \<and>
   (sklearn_check_version v ''1.0'' \<longleftrightarrow> version_le [1, 0] v) \<and>
   (sklearn_check_version v ''0.24'' \<longleftrightarrow> version_le [0, 24] v) \<and>
   (version_le v w \<longrightarrow>
      pin_le (scipy_pin (hd (get_compatible_scipy_version v)))
             (scipy_pin (hd (get_compatible_scipy_version w))))"
proof -
  have one: "\<exists>line. get_compatible_scipy_version v = [line]"
    unfolding script_output by auto
  have chain: "get_compatible_scipy_version v =
     (if sklearn_check_version v ''1.2'' then [''scipy==1.9'']
      else if sklearn_check_version v ''1.1'' then [''scipy==1.8'']
      else if sklearn_check_version v ''1.0'' then [''scipy==1.7'']
      else if sklearn_check_version v ''0.24'' then [''scipy==1.6'']
      else [''scipy''])"
    by (simp only: get_compatible_scipy_version_def)
  have thresholds: "(sklearn_check_version v ''1.2'' \<longleftrightarrow> version_le [1, 2] v)"
    "(sklearn_check_version v ''1.1'' \<longleftrightarrow> version_le [1, 1] v)"
    "(sklearn_check_version v ''1.0'' \<longleftrightarrow> version_le [1, 0] v)"
    "(sklearn_check_version v ''0.24'' \<longleftrightarrow> version_le [0, 24] v)"
    by (simp_all only: sklearn_check_version_def parse_version_thresholds)
  from one chain thresholds script_monotone [of v w] show ?thesis by blast
qed

theorem scipy_requirement_witness:
  "version_le [1, 0, 2] [1, 3, 0] \<and>
   get_compatible_scipy_version [1, 0, 2] = [''scipy==1.7''] \<and>
   get_compatible_scipy_version [1, 3, 0] = [''scipy==1.9''] \<and>
   get_compatible_scipy_version [0, 23, 2] = [''scipy''] \<and>
   pin_le (scipy_pin (hd (get_compatible_scipy_version [1, 0, 2])))
          (scipy_pin (hd (get_compatible_scipy_version [1, 3, 0])))"
proof -
  have le: "version_le [1, 0, 2] [1, 3, 0]" by simp
  have m: "pin_le (scipy_pin (hd (get_compatible_scipy_version [1, 0, 2])))
          (scipy_pin (hd (get_compatible_scipy_version [1, 3, 0])))"
    by (rule scipy_requirement [of "[1, 0, 2]" "[1, 3, 0]", THEN conjunct2, THEN conjunct2,
          THEN conjunct2, THEN conjunct2, THEN conjunct2, THEN conjunct2, rule_format, OF le])
  have a: "get_compatible_scipy_version [1, 0, 2] = [''scipy==1.7'']"
    by (simp add: script_output)
  have b: "get_compatible_scipy_version [1, 3, 0] = [''scipy==1.9'']"
    by (simp add: script_output)
  have c: "get_compatible_scipy_version [0, 23, 2] = [''scipy'']"
    by (simp add: script_output)
  from le a b c m show ?thesis by blast
qed

section \<open>The version of the oneDAL header\<close>

text \<open>
  The pattern match of the source finds exactly the numeral that the line defines, the
  substring test before it never rejects a line that the pattern matches, and the loop
  keeps, for each macro, the numeral of the last line that defines it.
\<close>

lemma takeWhile_digits_append:
  assumes "list_all is_digit ds" "case rest of [] \<Rightarrow> True | c # _ \<Rightarrow> \<not> is_digit c"
  shows "takeWhile is_digit (ds @ rest) = ds"
proof -
  have "takeWhile is_digit rest = []"
    using assms(2) by (cases rest) simp_all
  with assms(1) show ?thesis
    by (simp add: takeWhile_append2 list_all_iff)
qed

lemma line_defines_unique:
  assumes "line_defines macro ds elem"
  shows "takeWhile is_digit (drop (length (''#define '' @ macro @ '' '')) elem) = ds"
proof -
  let ?pat = "''#define '' @ macro @ '' ''"
  from assms have digits: "list_all is_digit ds"
    and pre: "prefix (?pat @ ds) elem"
    and stop: "case drop (length (?pat @ ds)) elem of [] \<Rightarrow> True | c # _ \<Rightarrow> \<not> is_digit c"
    by (simp_all add: line_defines_def)
  from pre obtain rest where elem: "elem = (?pat @ ds) @ rest"
    by (auto simp: prefix_def)
  from stop have stop': "case rest of [] \<Rightarrow> True | c # _ \<Rightarrow> \<not> is_digit c"
    unfolding elem by simp
  have "drop (length ?pat) elem = ds @ rest"
    unfolding elem by simp
  with takeWhile_digits_append [OF digits stop'] show ?thesis by simp
qed

lemma defined_numeral_iff:
  "defined_numeral macro elem = Some ds \<longleftrightarrow> line_defines macro ds elem"
  using line_defines_unique [of macro ds elem]
  by (auto simp: defined_numeral_def Let_def)

lemma defined_numeral_None:
  "defined_numeral macro elem = None \<longleftrightarrow> (\<forall>ds. \<not> line_defines macro ds elem)"
  using defined_numeral_iff [of macro elem] by (cases "defined_numeral macro elem") auto

lemma takeWhile_match:
  assumes "prefix pat elem"
  shows "list_all P (takeWhile P (drop (length pat) elem)) \<and>
     prefix (pat @ takeWhile P (drop (length pat) elem)) elem \<and>
     (case drop (length (pat @ takeWhile P (drop (length pat) elem))) elem of
        [] \<Rightarrow> True
      | c # _ \<Rightarrow> \<not> P c)"
proof -
  from assms obtain rest where elem: "elem = pat @ rest"
    by (auto simp: prefix_def)
  have all: "list_all P (takeWhile P rest)"
    unfolding list_all_iff by (meson set_takeWhileD)
  have pre: "prefix (takeWhile P rest) rest"
    by (rule takeWhile_is_prefix)
  have "drop (length (takeWhile P rest)) rest = dropWhile P rest"
    by (metis append_eq_conv_conj takeWhile_dropWhile_id)
  moreover have "case dropWhile P rest of [] \<Rightarrow> True | c # _ \<Rightarrow> \<not> P c"
  proof (cases "dropWhile P rest")
    case Nil
    show ?thesis unfolding Nil by simp
  next
    case (Cons c cs)
    have "dropWhile P rest \<noteq> []" unfolding Cons by simp
    then have "\<not> P (hd (dropWhile P rest))" by (rule hd_dropWhile)
    then show ?thesis unfolding Cons by simp
  qed
  ultimately have stop: "case drop (length (takeWhile P rest)) rest of
      [] \<Rightarrow> True | c # _ \<Rightarrow> \<not> P c"
    by simp
  from all pre stop show ?thesis
    unfolding elem by simp
qed

lemma re_match_define_eq: "re_match_define macro elem = defined_numeral macro elem"
proof -
  let ?pat = "''#define '' @ macro @ '' ''"
  let ?ds = "takeWhile is_digit (drop (length ?pat) elem)"
  have "line_defines macro ?ds elem \<longleftrightarrow> prefix ?pat elem \<and> ?ds \<noteq> []"
  proof
    assume "line_defines macro ?ds elem"
    then have "?ds \<noteq> []" and "prefix (?pat @ ?ds) elem"
      by (simp_all add: line_defines_def)
    then show "prefix ?pat elem \<and> ?ds \<noteq> []"
      using append_prefixD [of ?pat ?ds elem] by blast
  next
    assume matched: "prefix ?pat elem \<and> ?ds \<noteq> []"
    with takeWhile_match [of ?pat elem is_digit]
    show "line_defines macro ?ds elem"
      unfolding line_defines_def by simp
  qed
  then show ?thesis
    by (simp add: re_match_define_def defined_numeral_def Let_def)
qed

lemma prefix_sublist_define:
  assumes "prefix (''#define '' @ macro @ '' '') elem"
  shows "sublist (''#define '' @ macro) elem"
proof -
  from assms obtain rest where "elem = (''#define '' @ macro @ '' '') @ rest"
    by (auto simp: prefix_def)
  then have "elem = [] @ (''#define '' @ macro) @ ('' '' @ rest)" by simp
  then show ?thesis unfolding sublist_def by blast
qed

lemma scan_macro_eq:
  "scan_macro macro elem current =
     (case defined_numeral macro elem of Some ds \<Rightarrow> ds | None \<Rightarrow> current)"
proof (cases "re_match_define macro elem")
  case None
  then show ?thesis by (simp add: scan_macro_def re_match_define_eq [symmetric])
next
  case (Some ds)
  then have "prefix (''#define '' @ macro @ '' '') elem"
    by (simp add: re_match_define_def Let_def split: if_splits)
  then have "sublist (''#define '' @ macro) elem" by (rule prefix_sublist_define)
  with Some show ?thesis by (simp add: scan_macro_def re_match_define_eq [symmetric])
qed

lemma foldl_scan_line:
  "foldl scan_line v header =
     \<lparr>major = (case last_definition ''__INTEL_DAAL__'' header of
                 Some ds \<Rightarrow> ds | None \<Rightarrow> major v),
      minor = (case last_definition ''__INTEL_DAAL_MINOR__'' header of
                 Some ds \<Rightarrow> ds | None \<Rightarrow> minor v),
      major_binary = (case last_definition ''__INTEL_DAAL_MAJOR_BINARY__'' header of
                 Some ds \<Rightarrow> ds | None \<Rightarrow> major_binary v),
      minor_binary = (case last_definition ''__INTEL_DAAL_MINOR_BINARY__'' header of
                 Some ds \<Rightarrow> ds | None \<Rightarrow> minor_binary v)\<rparr>"
proof (induction header arbitrary: v)
  case Nil
  show ?case by simp
next
  case (Cons elem rest)
  show ?case
    by (simp only: foldl_Cons Cons.IH last_definition.simps)
      (simp add: scan_line_def scan_macro_eq split: option.splits)
qed

lemma last_definition_digits:
  "last_definition macro header = Some ds \<Longrightarrow> ds \<noteq> [] \<and> list_all is_digit ds"
proof (induction header)
  case Nil
  then show ?case by simp
next
  case (Cons elem rest)
  then show ?case
    by (auto simp: defined_numeral_iff line_defines_def split: option.splits)
qed

lemma py_int_digits:
  "ds \<noteq> [] \<and> list_all is_digit ds \<Longrightarrow> py_int ds = Inr (int (nat_of_digits ds))"
  by (simp add: py_int_def)

lemma last_definition_None_iff:
  "last_definition macro header = None \<longleftrightarrow>
     (\<forall>e \<in> set header. \<forall>ds. \<not> line_defines macro ds e)"
  by (induction header) (auto simp: defined_numeral_None split: option.splits)

lemma last_definition_Some_iff:
  "last_definition macro header = Some ds \<longleftrightarrow>
     (\<exists>before elem after. header = before @ elem # after \<and> line_defines macro ds elem \<and>
        (\<forall>e \<in> set after. \<forall>ds'. \<not> line_defines macro ds' e))"
proof (induction header)
  case Nil
  show ?case by simp
next
  case (Cons x rest)
  show ?case
  proof
    assume found: "last_definition macro (x # rest) = Some ds"
    show "\<exists>before elem after. x # rest = before @ elem # after \<and> line_defines macro ds elem \<and>
        (\<forall>e \<in> set after. \<forall>ds'. \<not> line_defines macro ds' e)"
    proof (cases "last_definition macro rest")
      case None
      with found have "line_defines macro ds x"
        by (simp add: defined_numeral_iff)
      moreover from None have "\<forall>e \<in> set rest. \<forall>ds'. \<not> line_defines macro ds' e"
        by (simp add: last_definition_None_iff)
      ultimately show ?thesis by (intro exI [of _ "[]"] exI [of _ x] exI [of _ rest]) simp
    next
      case (Some ds')
      with found have "last_definition macro rest = Some ds" by simp
      with Cons.IH obtain before elem after
        where "rest = before @ elem # after" "line_defines macro ds elem"
          "\<forall>e \<in> set after. \<forall>ds'. \<not> line_defines macro ds' e"
        by blast
      then show ?thesis
        by (intro exI [of _ "x # before"] exI [of _ elem] exI [of _ after]) simp
    qed
  next
    assume "\<exists>before elem after. x # rest = before @ elem # after \<and> line_defines macro ds elem \<and>
        (\<forall>e \<in> set after. \<forall>ds'. \<not> line_defines macro ds' e)"
    then obtain before elem after
      where split: "x # rest = before @ elem # after" and def: "line_defines macro ds elem"
        and last: "\<forall>e \<in> set after. \<forall>ds'. \<not> line_defines macro ds' e"
      by blast
    show "last_definition macro (x # rest) = Some ds"
    proof (cases before)
      case Nil
      with split have "x = elem" "rest = after" by simp_all
      with def last show ?thesis
        by (simp add: last_definition_None_iff [THEN iffD2] defined_numeral_iff)
    next
      case (Cons y before')
      with split have "rest = before' @ elem # after" by simp
      with def last Cons.IH have "last_definition macro rest = Some ds" by blast
      then show ?thesis by simp
    qed
  qed
qed

text \<open>
  Claim C9, as amended. When the header defines all four macros, \<open>M\<close>, \<open>m\<close>, \<open>a\<close> and \<open>b\<close>
  being the numerals of the last line that defines the major version, the minor version,
  the binary major and the binary minor, \<^verbatim>\<open>get_onedal_version\<close> returns
  \<open>(10000 * M + 100 * m, (a, b))\<close>. When no line defines the major version, or no line
  defines the minor version, it raises a \<^verbatim>\<open>ValueError\<close>.
\<close>

theorem onedal_version_of_header:
  "(last_definition ''__INTEL_DAAL__'' header = Some M \<and>
    last_definition ''__INTEL_DAAL_MINOR__'' header = Some m \<and>
    last_definition ''__INTEL_DAAL_MAJOR_BINARY__'' header = Some a \<and>
    last_definition ''__INTEL_DAAL_MINOR_BINARY__'' header = Some b \<longrightarrow>
      get_onedal_version header =
        Inr (10000 * int (nat_of_digits M) + 100 * int (nat_of_digits m),
             int (nat_of_digits a), int (nat_of_digits b))) \<and>
   (last_definition ''__INTEL_DAAL__'' header = None \<or>
    last_definition ''__INTEL_DAAL_MINOR__'' header = None \<longrightarrow>
      (\<exists>msg. get_onedal_version header = Inl (ValueError msg)))"
proof (intro conjI impI; (elim conjE)?)
  assume found: "last_definition ''__INTEL_DAAL__'' header = Some M"
    "last_definition ''__INTEL_DAAL_MINOR__'' header = Some m"
    "last_definition ''__INTEL_DAAL_MAJOR_BINARY__'' header = Some a"
    "last_definition ''__INTEL_DAAL_MINOR_BINARY__'' header = Some b"
  note ints = found [THEN last_definition_digits, THEN py_int_digits]
  show "get_onedal_version header =
        Inr (10000 * int (nat_of_digits M) + 100 * int (nat_of_digits m),
             int (nat_of_digits a), int (nat_of_digits b))"
    unfolding get_onedal_version_def foldl_scan_line Let_def
    by (simp add: found ints)
next
  assume absent: "last_definition ''__INTEL_DAAL__'' header = None \<or>
    last_definition ''__INTEL_DAAL_MINOR__'' header = None"
  show "\<exists>msg. get_onedal_version header = Inl (ValueError msg)"
  proof (cases "last_definition ''__INTEL_DAAL__'' header")
    case None
    then show ?thesis
      unfolding get_onedal_version_def foldl_scan_line Let_def
      by (simp add: py_int_def)
  next
    case (Some M)
    with absent have no_minor: "last_definition ''__INTEL_DAAL_MINOR__'' header = None"
      by simp
    from Some [THEN last_definition_digits, THEN py_int_digits] Some no_minor
    show ?thesis
      unfolding get_onedal_version_def foldl_scan_line Let_def
      by (simp add: py_int_def)
  qed
qed

theorem onedal_version_of_header_witness:
  "last_definition ''__INTEL_DAAL__'' sample_header = Some ''2023'' \<and>
   last_definition ''__INTEL_DAAL_MINOR__'' sample_header = Some ''2'' \<and>
   last_definition ''__INTEL_DAAL_MAJOR_BINARY__'' sample_header = Some ''1'' \<and>
   last_definition ''__INTEL_DAAL_MINOR_BINARY__'' sample_header = Some ''1'' \<and>
   get_onedal_version sample_header = Inr (20230200, 1, 1) \<and>
   last_definition ''__INTEL_DAAL_MINOR__'' header_without_minor = None \<and>
   (\<exists>msg. get_onedal_version header_without_minor = Inl (ValueError msg))"
proof -
  have found: "last_definition ''__INTEL_DAAL__'' sample_header = Some ''2023'' \<and>
   last_definition ''__INTEL_DAAL_MINOR__'' sample_header = Some ''2'' \<and>
   last_definition ''__INTEL_DAAL_MAJOR_BINARY__'' sample_header = Some ''1'' \<and>
   last_definition ''__INTEL_DAAL_MINOR_BINARY__'' sample_header = Some ''1''"
    by code_simp
  have absent: "last_definition ''__INTEL_DAAL_MINOR__'' header_without_minor = None"
    by code_simp
  have numerals: "nat_of_digits ''2023'' = 2023" "nat_of_digits ''2'' = 2" "nat_of_digits ''1'' = 1"
    by (simp_all add: nat_of_digits_def digit_val_def)
  from onedal_version_of_header [of sample_header "''2023''" "''2''" "''1''" "''1''",
      THEN conjunct1, rule_format, OF found]
  have version: "get_onedal_version sample_header = Inr (20230200, 1, 1)"
    by (simp add: numerals)
  from onedal_version_of_header [of header_without_minor, THEN conjunct2, rule_format,
      OF disjI2 [OF absent]]
  have error: "\<exists>msg. get_onedal_version header_without_minor = Inl (ValueError msg)" .
  from found version absent error show ?thesis by blast
qed

text \<open>
  The claim as it was stated fails on a header with two definitions of the major version:
  a line defines it as 2021, and the function returns the version of the later line.
\<close>

theorem first_definition_is_overwritten:
  "line_defines ''__INTEL_DAAL__'' ''2021'' (twice_defined_header ! 0) \<and>
   line_defines ''__INTEL_DAAL_MINOR__'' ''1'' (twice_defined_header ! 2) \<and>
   line_defines ''__INTEL_DAAL_MAJOR_BINARY__'' ''1'' (twice_defined_header ! 3) \<and>
   line_defines ''__INTEL_DAAL_MINOR_BINARY__'' ''0'' (twice_defined_header ! 4) \<and>
   get_onedal_version twice_defined_header = Inr (20230100, 1, 0) \<and>
   get_onedal_version twice_defined_header \<noteq> Inr (10000 * 2021 + 100 * 1, 1, 0)"
  by code_simp

end
